theory Spec2Isabelle
  imports Main "HOL-Library.AList" "HOL-Library.Multiset"
begin

section \<open>Records of the three collections (src/utils/storage.ts)\<close>

text \<open>
  The three interfaces of storage.ts. Optional properties (\<open>note?\<close>, \<open>draft?\<close>) are
  options; \<open>note\<close> is a reserved word of the proof language, so the field is \<open>note'\<close>.
  Numbers are JavaScript numbers that only ever hold integers here (sums of the quiz
  answers, millisecond time stamps), so they are \<open>int\<close>. \<open>answers\<close> is an object with
  integer property names: an association list from question id to answer value.
\<close>

record MoodEntry =
  date :: string
  mood :: string
  note' :: "string option"

datatype StressLevel = Low | Moderate | High

record StressQuizEntry =
  date :: string
  score :: int
  level :: StressLevel
  answers :: "(int \<times> int) list"
  timestamp :: int

record JournalEntry =
  date :: string
  content :: string
  draft :: "bool option"
  lastModified :: int
  createdAt :: int

text \<open>
  TypeScript types are erased at run time: an object store holds objects. \<open>stored\<close> is
  the type of the objects this program puts into its stores, and \<open>stored_date\<close> reads the
  property \<open>date\<close>, which all three have and which is the key path of every store.
\<close>

datatype stored = Mood MoodEntry | Quiz StressQuizEntry | Journal JournalEntry

fun stored_date :: "stored \<Rightarrow> string" where
  "stored_date (Mood m) = MoodEntry.date m"
| "stored_date (Quiz q) = StressQuizEntry.date q"
| "stored_date (Journal j) = JournalEntry.date j"

text \<open>\<open>entry.mood\<close> on a stored object: \<open>undefined\<close> (None) when it has no such property.\<close>

fun stored_mood :: "stored \<Rightarrow> string option" where
  "stored_mood (Mood m) = Some (mood m)"
| "stored_mood (Quiz q) = None"
| "stored_mood (Journal j) = None"

section \<open>The IndexedDB backend, as far as the program uses it\<close>

text \<open>
  The values a promise of storage.ts is rejected with: the \<open>Error\<close> that
  \<open>initIndexedDB\<close> constructs, a \<open>TypeError\<close> of the runtime, or the
  \<open>DOMException\<close> that IndexedDB puts into \<open>request.error\<close> (named by its \<open>name\<close>).
\<close>

datatype error =
    Error string
  | TypeError
  | NotFoundError
  | ConstraintError
  | VersionError
  | AbortError
  | QuotaExceededError
  | UnknownError

text \<open>
  An object store created with \<open>{ keyPath: 'date' }\<close> holds at most one object per
  key and takes the key of an object from its \<open>date\<close>: an association list from key
  to object. Every store of this database is created by \<open>onupgradeneeded\<close> below, with
  that key path.
\<close>

type_synonym IDBObjectStore = "(string \<times> stored) list"

definition IDBObjectStore_get :: "IDBObjectStore \<Rightarrow> string \<Rightarrow> stored option" where
  "IDBObjectStore_get store key = map_of store key"

definition IDBObjectStore_put :: "IDBObjectStore \<Rightarrow> stored \<Rightarrow> IDBObjectStore" where
  "IDBObjectStore_put store entry = AList.update (stored_date entry) entry store"

definition IDBObjectStore_delete :: "IDBObjectStore \<Rightarrow> string \<Rightarrow> IDBObjectStore" where
  "IDBObjectStore_delete store key = AList.delete key store"

definition IDBObjectStore_clear :: "IDBObjectStore \<Rightarrow> IDBObjectStore" where
  "IDBObjectStore_clear store = []"

text \<open>
  A database: its version and its object stores by name. \<open>objectStoreNames.contains\<close>
  asks whether a name is taken; \<open>createObjectStore\<close> throws a \<open>ConstraintError\<close> when
  it is, and otherwise adds an empty store.
\<close>

record IDBDatabase =
  version :: nat
  objectStores :: "string \<rightharpoonup> IDBObjectStore"

definition objectStoreNames_contains :: "IDBDatabase \<Rightarrow> string \<Rightarrow> bool" where
  "objectStoreNames_contains database name = (objectStores database name \<noteq> None)"

definition createObjectStore :: "IDBDatabase \<Rightarrow> string \<Rightarrow> error + IDBDatabase" where
  "createObjectStore database name =
     (if objectStoreNames_contains database name then Inl ConstraintError
      else Inr (database\<lparr>objectStores := (objectStores database)(name \<mapsto> [])\<rparr>))"

section \<open>Database configuration and schema upgrade (storage.ts, initIndexedDB)\<close>

definition DB_VERSION :: nat where
  "DB_VERSION = 2"

definition MOODS_STORE :: string where
  "MOODS_STORE = ''moods''"

definition STRESS_QUIZ_STORE :: string where
  "STRESS_QUIZ_STORE = ''stressQuizzes''"

definition JOURNAL_STORE :: string where
  "JOURNAL_STORE = ''journals''"

text \<open>
  The handler \<open>request.onupgradeneeded\<close>: its arguments are \<open>event.oldVersion\<close> and
  the database being upgraded (\<open>event.target.result\<close>). An exception thrown by
  \<open>createObjectStore\<close> would leave the handler at once; that is the \<open>Inl\<close> branch.
  \<open>event.oldVersion || 0\<close> is the number itself (0 is the only falsy version).
\<close>

definition onupgradeneeded :: "nat \<Rightarrow> IDBDatabase \<Rightarrow> error + IDBDatabase" where
  "onupgradeneeded event_oldVersion database =
     (let oldVersion = (if event_oldVersion = 0 then 0 else event_oldVersion) in
      case (if \<not> objectStoreNames_contains database MOODS_STORE
            then createObjectStore database MOODS_STORE else Inr database) of
        Inl e \<Rightarrow> Inl e
      | Inr database1 \<Rightarrow>
          (case (if oldVersion < 2 \<and> \<not> objectStoreNames_contains database1 STRESS_QUIZ_STORE
                 then createObjectStore database1 STRESS_QUIZ_STORE else Inr database1) of
             Inl e \<Rightarrow> Inl e
           | Inr database2 \<Rightarrow>
               (if oldVersion < 2 \<and> \<not> objectStoreNames_contains database2 JOURNAL_STORE
                then createObjectStore database2 JOURNAL_STORE else Inr database2)))"


text \<open>
  \<open>indexedDB.open(DB_NAME, DB_VERSION)\<close> on the database the browser holds
  (version 0 and no stores when it was never created): a \<open>VersionError\<close> when the
  stored version is newer; the upgrade handler when it is older, whose exception aborts
  the upgrade (\<open>AbortError\<close>, nothing changed); the database as it is otherwise.
\<close>

definition indexedDB_open ::
  "IDBDatabase \<Rightarrow> nat \<Rightarrow> (nat \<Rightarrow> IDBDatabase \<Rightarrow> error + IDBDatabase) \<Rightarrow> error + IDBDatabase" where
  "indexedDB_open persisted requested upgrade =
     (if requested < version persisted then Inl VersionError
      else if version persisted < requested then
        (case upgrade (version persisted) (persisted\<lparr>version := requested\<rparr>) of
           Inl e \<Rightarrow> Inl AbortError
         | Inr database \<Rightarrow> Inr database)
      else Inr persisted)"

section \<open>The runtime: module variables, backend outcomes, clock\<close>

text \<open>
  Everything outside the functions that they read or write:
  \<^item> \<open>window_indexedDB\<close>: None when the browser has no IndexedDB, otherwise the database
    \<open>MindSpaceDB\<close> as the browser holds it when the page loads;
  \<^item> \<open>db\<close>, \<open>initPromise\<close>: the two module variables of storage.ts. The open connection
    \<open>db\<close> carries the database: there is one connection (the spec's single-tab
    assumption). \<open>initPromise\<close> is modelled once settled, with its outcome;
  \<^item> \<open>faults\<close>: what the backend answers to the coming requests, in order: None fires
    \<open>onsuccess\<close>, Some e fires \<open>onerror\<close> with \<open>request.error = e\<close>; past the end of the
    list every request succeeds;
  \<^item> \<open>now\<close>, \<open>elapse\<close>: the clock in milliseconds since the epoch, and how many
    milliseconds pass after each of the coming readings (none past the end);
  \<^item> \<open>utcOffsetMinutes\<close>: local time minus UTC, fixed (a zone without daylight saving).
\<close>

record runtime =
  window_indexedDB :: "IDBDatabase option"
  db :: "IDBDatabase option"
  initPromise :: "(error + unit) option"
  faults :: "error option list"
  now :: int
  elapse :: "nat list"
  utcOffsetMinutes :: int

definition request_outcome :: "runtime \<Rightarrow> error option \<times> runtime" where
  "request_outcome w = (case faults w of [] \<Rightarrow> (None, w) | f # fs \<Rightarrow> (f, w\<lparr>faults := fs\<rparr>))"

text \<open>\<open>Date.now()\<close> and \<open>new Date()\<close>: the reading, and the runtime after it.\<close>

definition Date_now :: "runtime \<Rightarrow> int \<times> runtime" where
  "Date_now w =
     (case elapse w of
        [] \<Rightarrow> (now w, w)
      | ms # rest \<Rightarrow> (now w, w\<lparr>now := now w + int ms, elapse := rest\<rparr>))"

text \<open>
  \<open>initIndexedDB\<close>: the settled promise is returned as it is; otherwise the database is
  opened and the promise settles with the outcome (\<open>settle\<close>).
\<close>

definition settle :: "error + unit \<Rightarrow> runtime \<Rightarrow> (error + unit) \<times> runtime" where
  "settle outcome w = (outcome, w\<lparr>initPromise := Some outcome\<rparr>)"

definition initIndexedDB :: "runtime \<Rightarrow> (error + unit) \<times> runtime" where
  "initIndexedDB w =
     (case initPromise w of
        Some outcome \<Rightarrow> (outcome, w)
      | None \<Rightarrow>
          (case window_indexedDB w of
             None \<Rightarrow> settle (Inl (Error ''IndexedDB is not supported in this browser'')) w
           | Some persisted \<Rightarrow>
               (case request_outcome w of
                  (Some e, w') \<Rightarrow> settle (Inl e) w'
                | (None, w') \<Rightarrow>
                    (case indexedDB_open persisted DB_VERSION onupgradeneeded of
                       Inl e \<Rightarrow> settle (Inl e) w'
                     | Inr database \<Rightarrow> settle (Inr ()) (w'\<lparr>db := Some database\<rparr>)))))"

section \<open>Collection accessors (storage.ts)\<close>

text \<open>
  Every accessor has the same shape: \<open>if (!db) await initIndexedDB()\<close>, then
  \<open>db!.transaction([S], mode).objectStore(S)\<close>, one request on that store, and a promise
  that resolves in \<open>onsuccess\<close> and is rejected with \<open>request.error\<close> in \<open>onerror\<close>.
  \<open>connection\<close> is the first line (\<open>db!\<close> on null is a \<open>TypeError\<close>); \<open>readonly\<close> and
  \<open>readwrite\<close> are the rest, for the two transaction modes. \<open>transaction\<close> throws a
  \<open>NotFoundError\<close> when the database has no store of that name; a request that fails
  leaves the store as it was.
\<close>

definition connection :: "runtime \<Rightarrow> (error + IDBDatabase) \<times> runtime" where
  "connection w =
     (case db w of
        Some database \<Rightarrow> (Inr database, w)
      | None \<Rightarrow>
          (case initIndexedDB w of
             (Inl e, w') \<Rightarrow> (Inl e, w')
           | (Inr u, w') \<Rightarrow>
               (case db w' of
                  None \<Rightarrow> (Inl TypeError, w')
                | Some database \<Rightarrow> (Inr database, w'))))"

definition readonly :: "string \<Rightarrow> (IDBObjectStore \<Rightarrow> 'a) \<Rightarrow> runtime \<Rightarrow> (error + 'a) \<times> runtime" where
  "readonly name request w =
     (case connection w of
        (Inl e, w1) \<Rightarrow> (Inl e, w1)
      | (Inr database, w1) \<Rightarrow>
          (case objectStores database name of
             None \<Rightarrow> (Inl NotFoundError, w1)
           | Some store \<Rightarrow>
               (case request_outcome w1 of
                  (Some e, w2) \<Rightarrow> (Inl e, w2)
                | (None, w2) \<Rightarrow> (Inr (request store), w2))))"

definition readwrite ::
  "string \<Rightarrow> (IDBObjectStore \<Rightarrow> IDBObjectStore) \<Rightarrow> runtime \<Rightarrow> (error + unit) \<times> runtime" where
  "readwrite name request w =
     (case connection w of
        (Inl e, w1) \<Rightarrow> (Inl e, w1)
      | (Inr database, w1) \<Rightarrow>
          (case objectStores database name of
             None \<Rightarrow> (Inl NotFoundError, w1)
           | Some store \<Rightarrow>
               (case request_outcome w1 of
                  (Some e, w2) \<Rightarrow> (Inl e, w2)
                | (None, w2) \<Rightarrow>
                    (Inr (), w2\<lparr>db := Some (database\<lparr>objectStores :=
                                 (objectStores database)(name \<mapsto> request store)\<rparr>)\<rparr>))))"

text \<open>
  \<open>store.getAll()\<close> answers in key order, and IndexedDB orders string keys by their
  code units. \<open>String.prototype.localeCompare\<close> is modelled by the same comparison: the
  keys are dates \<open>YYYY-MM-DD\<close>, digits and hyphens at fixed places, on which every
  collation agrees with it. \<open>Array.prototype.sort\<close> is a stable sort by the comparator.
\<close>

fun compareCodeUnits :: "string \<Rightarrow> string \<Rightarrow> int" where
  "compareCodeUnits [] [] = 0"
| "compareCodeUnits [] (y # ys) = - 1"
| "compareCodeUnits (x # xs) [] = 1"
| "compareCodeUnits (x # xs) (y # ys) =
     (if (of_char x :: nat) < of_char y then - 1
      else if (of_char y :: nat) < of_char x then 1
      else compareCodeUnits xs ys)"

definition localeCompare :: "string \<Rightarrow> string \<Rightarrow> int" where
  "localeCompare a b = compareCodeUnits a b"

fun insert_sorted :: "('a \<Rightarrow> 'a \<Rightarrow> int) \<Rightarrow> 'a \<Rightarrow> 'a list \<Rightarrow> 'a list" where
  "insert_sorted compareFn x [] = [x]"
| "insert_sorted compareFn x (y # ys) =
     (if compareFn x y \<le> 0 then x # y # ys else y # insert_sorted compareFn x ys)"

definition Array_sort :: "('a \<Rightarrow> 'a \<Rightarrow> int) \<Rightarrow> 'a list \<Rightarrow> 'a list" where
  "Array_sort compareFn xs = foldr (insert_sorted compareFn) xs []"

definition IDBObjectStore_getAll :: "IDBObjectStore \<Rightarrow> stored list" where
  "IDBObjectStore_getAll store =
     map snd (Array_sort (\<lambda>a b. compareCodeUnits (fst a) (fst b)) store)"

text \<open>
  The accessors; their parameter \<open>date\<close> is \<open>key\<close> here (\<open>date\<close> is the record
  field). \<open>request.result || null\<close> and \<open>request.result || []\<close> are the result
  itself: a stored object and an array are never falsy, and \<open>undefined\<close> is None.
\<close>

definition getAllMoods :: "runtime \<Rightarrow> (error + stored list) \<times> runtime" where
  "getAllMoods w = readonly MOODS_STORE IDBObjectStore_getAll w"

definition getMoodByDate :: "string \<Rightarrow> runtime \<Rightarrow> (error + stored option) \<times> runtime" where
  "getMoodByDate key w = readonly MOODS_STORE (\<lambda>store. IDBObjectStore_get store key) w"

definition saveMood :: "MoodEntry \<Rightarrow> runtime \<Rightarrow> (error + unit) \<times> runtime" where
  "saveMood entry w = readwrite MOODS_STORE (\<lambda>store. IDBObjectStore_put store (Mood entry)) w"

definition deleteMood :: "string \<Rightarrow> runtime \<Rightarrow> (error + unit) \<times> runtime" where
  "deleteMood key w = readwrite MOODS_STORE (\<lambda>store. IDBObjectStore_delete store key) w"

definition clearAll :: "runtime \<Rightarrow> (error + unit) \<times> runtime" where
  "clearAll w = readwrite MOODS_STORE IDBObjectStore_clear w"

definition saveQuizResult :: "StressQuizEntry \<Rightarrow> runtime \<Rightarrow> (error + unit) \<times> runtime" where
  "saveQuizResult entry w =
     readwrite STRESS_QUIZ_STORE (\<lambda>store. IDBObjectStore_put store (Quiz entry)) w"

definition getQuizByDate :: "string \<Rightarrow> runtime \<Rightarrow> (error + stored option) \<times> runtime" where
  "getQuizByDate key w = readonly STRESS_QUIZ_STORE (\<lambda>store. IDBObjectStore_get store key) w"

definition getAllQuizzes :: "runtime \<Rightarrow> (error + stored list) \<times> runtime" where
  "getAllQuizzes w = readonly STRESS_QUIZ_STORE IDBObjectStore_getAll w"

definition saveJournal :: "JournalEntry \<Rightarrow> runtime \<Rightarrow> (error + unit) \<times> runtime" where
  "saveJournal entry w =
     readwrite JOURNAL_STORE (\<lambda>store. IDBObjectStore_put store (Journal entry)) w"

definition getJournalByDate :: "string \<Rightarrow> runtime \<Rightarrow> (error + stored option) \<times> runtime" where
  "getJournalByDate key w = readonly JOURNAL_STORE (\<lambda>store. IDBObjectStore_get store key) w"

definition getAllJournals :: "runtime \<Rightarrow> (error + stored list) \<times> runtime" where
  "getAllJournals w = readonly JOURNAL_STORE IDBObjectStore_getAll w"

definition deleteJournal :: "string \<Rightarrow> runtime \<Rightarrow> (error + unit) \<times> runtime" where
  "deleteJournal key w = readwrite JOURNAL_STORE (\<lambda>store. IDBObjectStore_delete store key) w"

section \<open>Dates (the JavaScript \<open>Date\<close> and date-fns \<open>format\<close>)\<close>

text \<open>
  A \<open>Date\<close> is its time value, milliseconds since the epoch in UTC; an invalid date
  (\<open>NaN\<close>) is None. Days are counted from 1970-01-01; \<open>days_from_civil\<close> and
  \<open>civil_from_days\<close> convert between a day number and year, month, day of the
  proleptic Gregorian calendar, which is the calendar of \<open>Date\<close>.
\<close>

definition msPerDay :: int where
  "msPerDay = 1000 * 60 * 60 * 24"

definition days_from_civil :: "int \<Rightarrow> int \<Rightarrow> int \<Rightarrow> int" where
  "days_from_civil y m d =
     (let y' = (if m \<le> 2 then y - 1 else y);
          era = y' div 400;
          yoe = y' - era * 400;
          doy = (153 * (if m > 2 then m - 3 else m + 9) + 2) div 5 + d - 1;
          doe = yoe * 365 + yoe div 4 - yoe div 100 + doy
      in era * 146097 + doe - 719468)"

definition civil_from_days :: "int \<Rightarrow> int \<times> int \<times> int" where
  "civil_from_days z =
     (let z' = z + 719468;
          era = z' div 146097;
          doe = z' - era * 146097;
          yoe = (doe - doe div 1460 + doe div 36524 - doe div 146096) div 365;
          doy = doe - (365 * yoe + yoe div 4 - yoe div 100);
          mp = (5 * doy + 2) div 153;
          d = doy - (153 * mp + 2) div 5 + 1;
          m = (if mp < 10 then mp + 3 else mp - 9)
      in (yoe + era * 400 + (if m \<le> 2 then 1 else 0), m, d))"

text \<open>Decimal digits: reading a run of them, and writing a number with leading zeros.\<close>

definition digit_value :: "char \<Rightarrow> int option" where
  "digit_value c =
     (let n = (of_char c :: nat) in if 48 \<le> n \<and> n \<le> 57 then Some (int n - 48) else None)"

fun read_digits :: "int \<Rightarrow> string \<Rightarrow> int option" where
  "read_digits acc [] = Some acc"
| "read_digits acc (c # cs) =
     (case digit_value c of None \<Rightarrow> None | Some v \<Rightarrow> read_digits (10 * acc + v) cs)"

definition digit_char :: "nat \<Rightarrow> char" where
  "digit_char n = ''0123456789'' ! (n mod 10)"

fun zero_padded :: "nat \<Rightarrow> nat \<Rightarrow> string" where
  "zero_padded 0 n = []"
| "zero_padded (Suc width) n = zero_padded width (n div 10) @ [digit_char n]"

text \<open>
  \<open>new Date(s)\<close> for a key \<open>s\<close>. A date-only string \<open>YYYY-MM-DD\<close> is read as midnight
  UTC of that day. The month must be 1 to 12 and the day 1 to 31; a day past the end of
  its month runs on into the next month, as in V8 (\<open>2024-02-30\<close> is 2024-03-01), which
  \<open>days_from_civil\<close> does by itself, being linear in the day. The keys of this program
  have the form \<open>YYYY-MM-DD\<close>; what engines do with other strings differs between them
  and is not modelled: they are invalid dates here.
\<close>

definition Date_parse :: "string \<Rightarrow> int option" where
  "Date_parse s =
     (if length s = 10 \<and> s ! 4 = CHR ''-'' \<and> s ! 7 = CHR ''-'' then
        (case (read_digits 0 (take 4 s), read_digits 0 (take 2 (drop 5 s)),
               read_digits 0 (drop 8 s)) of
           (Some y, Some m, Some d) \<Rightarrow>
             (if 1 \<le> m \<and> m \<le> 12 \<and> 1 \<le> d \<and> d \<le> 31
              then Some (days_from_civil y m d * msPerDay) else None)
         | _ \<Rightarrow> None)
      else None)"

text \<open>
  \<open>d.setHours(0, 0, 0, 0)\<close> moves \<open>d\<close> to midnight of its day in local time.
  \<open>d.setDate(d.getDate() - i)\<close> moves \<open>d\<close> back by \<open>i\<close> local days at the same time of
  day, which at a fixed offset is \<open>i\<close> times 24 hours.
\<close>

definition setHours_0 :: "int \<Rightarrow> int \<Rightarrow> int" where
  "setHours_0 offsetMinutes t =
     ((t + offsetMinutes * 60000) div msPerDay) * msPerDay - offsetMinutes * 60000"

definition setDate_back :: "int \<Rightarrow> nat \<Rightarrow> int" where
  "setDate_back t i = t - int i * msPerDay"

text \<open>
  \<open>d.toISOString().split('T')[0]\<close>: the date of \<open>d\<close> in UTC, the year with four digits
  (with a sign and six outside 0 to 9999).
\<close>

definition toISOString_date :: "int \<Rightarrow> string" where
  "toISOString_date t =
     (case civil_from_days (t div msPerDay) of
        (y, m, d) \<Rightarrow>
          (if 0 \<le> y \<and> y \<le> 9999 then zero_padded 4 (nat y)
           else (if y < 0 then ''-'' else ''+'') @ zero_padded 6 (nat (abs y)))
          @ ''-'' @ zero_padded 2 (nat m) @ ''-'' @ zero_padded 2 (nat d))"

text \<open>
  date-fns \<open>format(d, 'yyyy-MM-dd')\<close>: the date of \<open>d\<close> in local time. The library
  writes the year with at least four digits; years 1 to 9999 are modelled, which covers
  every reading of a clock this program can meet.
\<close>

definition format_yyyy_MM_dd :: "int \<Rightarrow> int \<Rightarrow> string" where
  "format_yyyy_MM_dd offsetMinutes t =
     (case civil_from_days ((t + offsetMinutes * 60000) div msPerDay) of
        (y, m, d) \<Rightarrow>
          zero_padded 4 (nat y) @ ''-'' @ zero_padded 2 (nat m) @ ''-'' @ zero_padded 2 (nat d))"

section \<open>Derived queries (storage.ts)\<close>

text \<open>
  The loop of \<open>getStreak\<close>. Its arguments are the offset of the zone, \<open>today\<close> after
  \<open>setHours(0, 0, 0, 0)\<close>, the index \<open>i\<close>, the counter \<open>streak\<close> and the entries
  \<open>sorted[i], sorted[i + 1], ...\<close> still to visit. An invalid \<open>entryDate\<close> makes
  \<open>daysDiff\<close> \<open>NaN\<close>, which is not equal to \<open>i\<close>: the loop breaks.
  \<open>Math.floor\<close> of the quotient is \<open>div\<close>, which rounds down.
\<close>

fun streak_loop :: "int \<Rightarrow> int \<Rightarrow> nat \<Rightarrow> nat \<Rightarrow> stored list \<Rightarrow> nat" where
  "streak_loop offsetMinutes today i streak [] = streak"
| "streak_loop offsetMinutes today i streak (entry # rest) =
     (case Date_parse (stored_date entry) of
        None \<Rightarrow> streak
      | Some parsed \<Rightarrow>
          (let entryDate = setHours_0 offsetMinutes parsed;
               daysDiff = (today - entryDate) div (1000 * 60 * 60 * 24)
           in if daysDiff = int i
              then streak_loop offsetMinutes today (i + 1) (streak + 1) rest
              else streak))"

definition getStreak :: "runtime \<Rightarrow> (error + nat) \<times> runtime" where
  "getStreak w =
     (case getAllMoods w of
        (Inl e, w1) \<Rightarrow> (Inl e, w1)
      | (Inr moods, w1) \<Rightarrow>
          (if length moods = 0 then (Inr 0, w1)
           else
             (let sorted = Array_sort (\<lambda>a b. localeCompare (stored_date b) (stored_date a)) moods
              in case Date_now w1 of
                   (today0, w2) \<Rightarrow>
                     (let today = setHours_0 (utcOffsetMinutes w2) today0
                      in (Inr (streak_loop (utcOffsetMinutes w2) today 0 0 sorted), w2)))))"

text \<open>
  \<open>getWeeklyData\<close>: the loop runs \<open>i\<close> through 6, 5, ..., 0, awaits one
  \<open>getMoodByDate\<close> for each and pushes \<open>{ date: dateStr, mood: entry?.mood || null }\<close>,
  a pair here. An empty string is falsy, so an entry whose mood is empty gives null.
  A lookup that is rejected rejects the whole call.
\<close>

definition mood_or_null :: "stored option \<Rightarrow> string option" where
  "mood_or_null entry =
     (case entry of
        None \<Rightarrow> None
      | Some e \<Rightarrow>
          (case stored_mood e of
             None \<Rightarrow> None
           | Some m \<Rightarrow> (if m = [] then None else Some m)))"

fun weekly_loop ::
  "int \<Rightarrow> nat list \<Rightarrow> (string \<times> string option) list \<Rightarrow> runtime
     \<Rightarrow> (error + (string \<times> string option) list) \<times> runtime" where
  "weekly_loop today [] weekData w = (Inr weekData, w)"
| "weekly_loop today (i # rest) weekData w =
     (let dateStr = toISOString_date (setDate_back today i)
      in case getMoodByDate dateStr w of
           (Inl e, w') \<Rightarrow> (Inl e, w')
         | (Inr entry, w') \<Rightarrow>
             weekly_loop today rest (weekData @ [(dateStr, mood_or_null entry)]) w')"

definition getWeeklyData :: "runtime \<Rightarrow> (error + (string \<times> string option) list) \<times> runtime" where
  "getWeeklyData w =
     (case Date_now w of
        (today, w1) \<Rightarrow> weekly_loop today [6, 5, 4, 3, 2, 1, 0] [] w1)"

section \<open>The stress quiz (src/components/StressQuiz.tsx)\<close>

text \<open>
  The three bands of \<open>STRESS_LEVELS\<close> (\<open>min\<close> and \<open>max\<close> are \<open>min'\<close> and \<open>max'\<close>; the
  emoji is left out), and the state of the component: its three \<open>useState\<close> variables.
\<close>

record StressBand =
  min' :: int
  max' :: int
  label :: StressLevel
  color :: string

definition STRESS_LEVELS_LOW :: StressBand where
  "STRESS_LEVELS_LOW = \<lparr>min' = 10, max' = 25, label = Low, color = ''green''\<rparr>"

definition STRESS_LEVELS_MODERATE :: StressBand where
  "STRESS_LEVELS_MODERATE = \<lparr>min' = 26, max' = 40, label = Moderate, color = ''yellow''\<rparr>"

definition STRESS_LEVELS_HIGH :: StressBand where
  "STRESS_LEVELS_HIGH = \<lparr>min' = 41, max' = 50, label = High, color = ''red''\<rparr>"

record StressQuiz =
  answers :: "(int \<times> int) list"
  showResults :: bool
  score :: int

definition handleAnswer :: "int \<Rightarrow> int \<Rightarrow> StressQuiz \<Rightarrow> StressQuiz" where
  "handleAnswer questionId v st =
     st\<lparr>StressQuiz.answers := AList.update questionId v (StressQuiz.answers st)\<rparr>"

text \<open>\<open>Object.values(answers).reduce((sum, value) => sum + value, 0)\<close>.\<close>

definition calculateScore :: "StressQuiz \<Rightarrow> int" where
  "calculateScore st = foldl (\<lambda>sum v. sum + v) 0 (map snd (StressQuiz.answers st))"

definition getStressLevel :: "int \<Rightarrow> StressBand" where
  "getStressLevel totalScore =
     (if totalScore \<le> max' STRESS_LEVELS_LOW then STRESS_LEVELS_LOW
      else if totalScore \<le> max' STRESS_LEVELS_MODERATE then STRESS_LEVELS_MODERATE
      else STRESS_LEVELS_HIGH)"

text \<open>
  \<open>handleSubmit\<close>. \<open>handleSubmit_entry\<close> is the object literal \<open>entry\<close>, which reads
  the clock twice (\<open>new Date()\<close> for the date, \<open>Date.now()\<close> for the time stamp). A
  rejected save is caught and logged: the state is the same either way.
\<close>

definition handleSubmit_entry :: "StressQuiz \<Rightarrow> runtime \<Rightarrow> StressQuizEntry \<times> runtime" where
  "handleSubmit_entry st w =
     (let totalScore = calculateScore st;
          stressLevel = getStressLevel totalScore
      in case Date_now w of
           (d, w1) \<Rightarrow>
             (case Date_now w1 of
                (t, w2) \<Rightarrow>
                  (\<lparr>StressQuizEntry.date = format_yyyy_MM_dd (utcOffsetMinutes w) d,
                    score = totalScore,
                    level = label stressLevel,
                    answers = StressQuiz.answers st,
                    timestamp = t\<rparr>, w2)))"

definition handleSubmit :: "StressQuiz \<Rightarrow> runtime \<Rightarrow> StressQuiz \<times> runtime" where
  "handleSubmit st w =
     (let totalScore = calculateScore st;
          st' = st\<lparr>StressQuiz.score := totalScore, showResults := True\<rparr>
      in case handleSubmit_entry st w of
           (entry, w1) \<Rightarrow>
             (case saveQuizResult entry w1 of
                (Inl e, w2) \<Rightarrow> (st', w2)
              | (Inr u, w2) \<Rightarrow> (st', w2)))"

section \<open>The journal (the component \<open>Journal\<close>, second part of StressQuiz.tsx)\<close>

text \<open>
  The state of the component: its \<open>useState\<close> variables and \<open>todayStr\<close>, which the
  component computes when it renders. \<open>lastSaved\<close> is a \<open>Date\<close> or null. The handlers
  read the state as it is when they run.
\<close>

record Journal_state =
  content :: string
  isSaving :: bool
  lastSaved :: "int option"
  isDraft :: bool
  showDeleteConfirm :: bool
  todayStr :: string

text \<open>
  \<open>String.prototype.trim\<close> removes white space and line terminators at both ends. A
  \<open>char\<close> is a code unit below 256; of the code points that \<open>trim\<close> removes, those are
  tab, line feed, vertical tab, form feed, carriage return, space and the no-break space
  U+00A0. The others (U+1680, U+2000 to U+200A, U+2028, U+2029, U+202F, U+205F, U+3000,
  U+FEFF) lie beyond a \<open>char\<close> and cannot occur in a \<open>string\<close>.
\<close>

definition isWhiteSpace :: "char \<Rightarrow> bool" where
  "isWhiteSpace c = (of_char c \<in> {9, 10, 11, 12, 13, 32, 160 :: nat})"

definition trim :: "string \<Rightarrow> string" where
  "trim s = rev (dropWhile isWhiteSpace (rev (dropWhile isWhiteSpace s)))"

text \<open>
  \<open>journal_entry\<close> is the object literal that \<open>autoSaveDraft\<close> and \<open>handleSave\<close> share
  but for \<open>draft\<close>: \<open>lastModified\<close> reads the clock, and \<open>createdAt\<close> is the time of
  \<open>lastSaved\<close> when that is set (a \<open>Date\<close> is never falsy) and reads the clock
  otherwise. \<open>journal_save\<close> is the \<open>try\<close> block after it: on success \<open>isDraft\<close> and
  \<open>lastSaved\<close> (\<open>new Date()\<close>, a third reading) are set; a rejection is caught and
  logged; \<open>isSaving\<close> is false again in the end.
\<close>

definition journal_entry :: "bool \<Rightarrow> Journal_state \<Rightarrow> runtime \<Rightarrow> JournalEntry \<times> runtime" where
  "journal_entry asDraft st w =
     (case Date_now w of
        (modified, w1) \<Rightarrow>
          (case (case lastSaved st of
                   Some saved \<Rightarrow> (saved, w1)
                 | None \<Rightarrow> Date_now w1) of
             (created, w2) \<Rightarrow>
               (\<lparr>JournalEntry.date = todayStr st,
                 content = trim (Journal_state.content st),
                 draft = Some asDraft,
                 lastModified = modified,
                 createdAt = created\<rparr>, w2)))"

definition journal_save :: "bool \<Rightarrow> Journal_state \<Rightarrow> runtime \<Rightarrow> Journal_state \<times> runtime" where
  "journal_save asDraft st w =
     (case journal_entry asDraft st w of
        (entry, w1) \<Rightarrow>
          (case saveJournal entry w1 of
             (Inl e, w2) \<Rightarrow> (st\<lparr>isSaving := False\<rparr>, w2)
           | (Inr u, w2) \<Rightarrow>
               (case Date_now w2 of
                  (saved, w3) \<Rightarrow>
                    (st\<lparr>isDraft := asDraft, lastSaved := Some saved, isSaving := False\<rparr>, w3))))"

definition autoSaveDraft :: "Journal_state \<Rightarrow> runtime \<Rightarrow> Journal_state \<times> runtime" where
  "autoSaveDraft st w =
     (if trim (Journal_state.content st) = [] then (st, w) else journal_save True st w)"

definition handleSave :: "Journal_state \<Rightarrow> runtime \<Rightarrow> Journal_state \<times> runtime" where
  "handleSave st w =
     (if trim (Journal_state.content st) = [] then (st, w) else journal_save False st w)"

definition handleDelete :: "Journal_state \<Rightarrow> runtime \<Rightarrow> Journal_state \<times> runtime" where
  "handleDelete st w =
     (case deleteJournal (todayStr st) w of
        (Inl e, w1) \<Rightarrow> (st, w1)
      | (Inr u, w1) \<Rightarrow>
          (st\<lparr>Journal_state.content := [], isDraft := False, lastSaved := None,
              showDeleteConfirm := False\<rparr>, w1))"

definition handleContentChange :: "string \<Rightarrow> Journal_state \<Rightarrow> Journal_state" where
  "handleContentChange v st = st\<lparr>Journal_state.content := v\<rparr>"

section \<open>Notions used in the statements\<close>

text \<open>
  A store is well formed when no key occurs twice and every object sits under its own
  \<open>date\<close>. An empty store is, and \<open>put\<close>, \<open>delete\<close> and \<open>clear\<close> keep it so.
\<close>

definition store_wellformed :: "IDBObjectStore \<Rightarrow> bool" where
  "store_wellformed store =
     (distinct (map fst store) \<and> list_all (\<lambda>(key, entry). stored_date entry = key) store)"

text \<open>The objects of one date among those that \<open>getAll\<close> answered.\<close>

definition records_of_date :: "string \<Rightarrow> stored list \<Rightarrow> stored list" where
  "records_of_date key entries = filter (\<lambda>entry. stored_date entry = key) entries"


text \<open>What the upgrade handler does to the stores: a missing store is added, empty.\<close>

definition ensureStore :: "string \<Rightarrow> (string \<rightharpoonup> IDBObjectStore) \<Rightarrow> (string \<rightharpoonup> IDBObjectStore)" where
  "ensureStore name stores = (case stores name of None \<Rightarrow> stores(name \<mapsto> []) | Some s \<Rightarrow> stores)"

section \<open>Concrete inputs\<close>

definition mood_on :: "string \<Rightarrow> string \<times> stored" where
  "mood_on d = (d, Mood \<lparr>MoodEntry.date = d, mood = ''calm'', note' = None\<rparr>)"

text \<open>A database as version 1 of the program left it: only \<open>moods\<close>, with one entry.\<close>

definition version1_database :: IDBDatabase where
  "version1_database = \<lparr>version = 1, objectStores = [MOODS_STORE \<mapsto> [mood_on ''2024-03-10'']]\<rparr>"

text \<open>
  An open connection in a zone at UTC, on 2024-03-11 at 01:00: moods for that day and
  the two days before, one journal entry, no quiz result.
\<close>

definition journal_of_march_10 :: JournalEntry where
  "journal_of_march_10 =
     \<lparr>JournalEntry.date = ''2024-03-10'', content = ''A quiet day.'', draft = Some False,
      lastModified = 1710100000000, createdAt = 1710100000000\<rparr>"

definition utc_runtime :: runtime where
  "utc_runtime =
     \<lparr>window_indexedDB = None,
      db = Some \<lparr>version = 2,
                 objectStores =
                   [MOODS_STORE \<mapsto>
                      [mood_on ''2024-03-09'', mood_on ''2024-03-10'', mood_on ''2024-03-11''],
                    STRESS_QUIZ_STORE \<mapsto> [],
                    JOURNAL_STORE \<mapsto> [(''2024-03-10'', Journal journal_of_march_10)]]\<rparr>,
      initPromise = Some (Inr ()),
      faults = [],
      now = 1710118800000,
      elapse = [],
      utcOffsetMinutes = 0\<rparr>"

definition quiz_of_march_11 :: StressQuizEntry where
  "quiz_of_march_11 =
     \<lparr>StressQuizEntry.date = ''2024-03-11'', score = 30, level = Moderate,
      answers = [(1, 3), (2, 3), (3, 3), (4, 3), (5, 3), (6, 3), (7, 3), (8, 3), (9, 3), (10, 3)],
      timestamp = 1710118800000\<rparr>"


definition sad_mood :: MoodEntry where
  "sad_mood = \<lparr>MoodEntry.date = ''2024-03-10'', mood = ''sad'', note' = None\<rparr>"

definition happy_mood :: MoodEntry where
  "happy_mood = \<lparr>MoodEntry.date = ''2024-03-10'', mood = ''happy'', note' = Some ''better''\<rparr>"

text \<open>
  A browser that has never held the database (version 0, no store), and one that holds
  the database of version 1; the page has just loaded and nothing is open yet.
\<close>

definition fresh_browser :: runtime where
  "fresh_browser =
     \<lparr>window_indexedDB = Some \<lparr>version = 0, objectStores = Map.empty\<rparr>,
      db = None,
      initPromise = None,
      faults = [],
      now = 1710118800000,
      elapse = [],
      utcOffsetMinutes = 0\<rparr>"

definition version1_browser :: runtime where
  "version1_browser = fresh_browser\<lparr>window_indexedDB := Some version1_database\<rparr>"


text \<open>A quiz with every one of the ten questions answered 3 (Sometimes).\<close>

definition all_sometimes :: StressQuiz where
  "all_sometimes =
     \<lparr>StressQuiz.answers =
        [(1, 3), (2, 3), (3, 3), (4, 3), (5, 3), (6, 3), (7, 3), (8, 3), (9, 3), (10, 3)],
      showResults = False, score = 0\<rparr>"

text \<open>
  A runtime whose open database holds moods for the given dates and nothing else, and
  an evening in a zone five hours west of UTC all year (Bogota): 2024-03-10 at 20:00
  local time, which is 2024-03-11 at 01:00 UTC.
\<close>

definition with_moods :: "string list \<Rightarrow> runtime \<Rightarrow> runtime" where
  "with_moods dates w =
     w\<lparr>db := Some \<lparr>version = 2,
                     objectStores = [MOODS_STORE \<mapsto> map mood_on dates,
                                     STRESS_QUIZ_STORE \<mapsto> [], JOURNAL_STORE \<mapsto> []]\<rparr>\<rparr>"

definition bogota_evening :: runtime where
  "bogota_evening =
     \<lparr>window_indexedDB = None,
      db = Some \<lparr>version = 2,
                 objectStores = [MOODS_STORE \<mapsto> [], STRESS_QUIZ_STORE \<mapsto> [],
                                 JOURNAL_STORE \<mapsto> []]\<rparr>,
      initPromise = Some (Inr ()),
      faults = [],
      now = 1710118800000,
      elapse = [],
      utcOffsetMinutes = - 300\<rparr>"

text \<open>
  The journal page on 2024-03-11 with no entry for the day yet, a text typed in, and a
  clock that advances 4 ms while the first save is under way and a minute before the
  user presses Save; then the auto-save, the explicit save after it, and at last the
  entry deleted, a new text typed and saved by the auto-save.
\<close>

definition journal_start :: Journal_state where
  "journal_start =
     \<lparr>content = ''Dear diary'', isSaving = False, lastSaved = None, isDraft = False,
      showDeleteConfirm = False, todayStr = ''2024-03-11''\<rparr>"

definition journal_runtime :: runtime where
  "journal_runtime = utc_runtime\<lparr>elapse := [0, 4, 60000, 3, 30000]\<rparr>"

definition after_autoSave :: "Journal_state \<times> runtime" where
  "after_autoSave = autoSaveDraft journal_start journal_runtime"

definition after_save :: "Journal_state \<times> runtime" where
  "after_save = handleSave (fst after_autoSave) (snd after_autoSave)"

definition after_delete :: "Journal_state \<times> runtime" where
  "after_delete = handleDelete (fst after_save) (snd after_save)"

definition after_delete_and_autoSave :: "Journal_state \<times> runtime" where
  "after_delete_and_autoSave =
     autoSaveDraft (handleContentChange ''Dear diary, again'' (fst after_delete))
       (snd after_delete)"

section \<open>Schema upgrade: additive and idempotent\<close>

lemma store_names_distinct:
  "MOODS_STORE \<noteq> STRESS_QUIZ_STORE" "MOODS_STORE \<noteq> JOURNAL_STORE"
  "STRESS_QUIZ_STORE \<noteq> JOURNAL_STORE" "STRESS_QUIZ_STORE \<noteq> MOODS_STORE"
  "JOURNAL_STORE \<noteq> MOODS_STORE" "JOURNAL_STORE \<noteq> STRESS_QUIZ_STORE"
  by (simp_all add: MOODS_STORE_def STRESS_QUIZ_STORE_def JOURNAL_STORE_def)

lemma onupgradeneeded_result:
  "onupgradeneeded oldVersion database =
     Inr (database\<lparr>objectStores :=
        (if oldVersion < 2
         then ensureStore JOURNAL_STORE (ensureStore STRESS_QUIZ_STORE
                (ensureStore MOODS_STORE (objectStores database)))
         else ensureStore MOODS_STORE (objectStores database))\<rparr>)"
  by (auto simp: onupgradeneeded_def createObjectStore_def objectStoreNames_contains_def
      ensureStore_def Let_def store_names_distinct split: option.splits)

lemma ensureStore_keeps:
  "stores name = Some s \<Longrightarrow> ensureStore other stores name = Some s"
  by (auto simp: ensureStore_def split: option.splits)

lemma dom_ensureStore: "dom (ensureStore name stores) = insert name (dom stores)"
  by (auto simp: ensureStore_def split: option.splits)

text \<open>
  C7. The upgrade handler never fails. The stores afterwards are those before, each with
  the contents it had, and in addition \<open>moods\<close> whatever the old version, and
  \<open>stressQuizzes\<close> and \<open>journals\<close> when the old version is below 2; a store that was
  added is empty; the version is not touched. Running the handler again on its result,
  with the same old version or with the current one, changes nothing.
\<close>

theorem upgrade_additive_idempotent:
  "\<exists>database'. onupgradeneeded oldVersion database = Inr database'
     \<and> dom (objectStores database') =
         dom (objectStores database) \<union> {MOODS_STORE}
           \<union> (if oldVersion < 2 then {STRESS_QUIZ_STORE, JOURNAL_STORE} else {})
     \<and> (\<forall>name store. objectStores database name = Some store
            \<longrightarrow> objectStores database' name = Some store)
     \<and> (\<forall>name. objectStores database name = None \<and> name \<in> dom (objectStores database')
            \<longrightarrow> objectStores database' name = Some [])
     \<and> version database' = version database
     \<and> onupgradeneeded oldVersion database' = Inr database'
     \<and> onupgradeneeded DB_VERSION database' = Inr database'"
proof -
  let ?d = "database\<lparr>objectStores :=
        (if oldVersion < 2
         then ensureStore JOURNAL_STORE (ensureStore STRESS_QUIZ_STORE
                (ensureStore MOODS_STORE (objectStores database)))
         else ensureStore MOODS_STORE (objectStores database))\<rparr>"
  have r: "onupgradeneeded oldVersion database = Inr ?d"
    by (rule onupgradeneeded_result)
  have names: "dom (objectStores ?d) =
         dom (objectStores database) \<union> {MOODS_STORE}
           \<union> (if oldVersion < 2 then {STRESS_QUIZ_STORE, JOURNAL_STORE} else {})"
    by (auto simp: dom_ensureStore)
  have keeps: "\<forall>name store. objectStores database name = Some store
            \<longrightarrow> objectStores ?d name = Some store"
    by (simp add: ensureStore_keeps)
  have fresh: "\<forall>name. objectStores database name = None \<and> name \<in> dom (objectStores ?d)
            \<longrightarrow> objectStores ?d name = Some []"
    by (auto simp: ensureStore_def split: option.splits if_splits)
  have again: "onupgradeneeded oldVersion ?d = Inr ?d"
    by (auto simp: onupgradeneeded_result ensureStore_def store_names_distinct
        split: option.splits)
  have again2: "onupgradeneeded DB_VERSION ?d = Inr ?d"
    by (auto simp: onupgradeneeded_result DB_VERSION_def ensureStore_def store_names_distinct
        split: option.splits)
  show ?thesis
    using r names keeps fresh again again2 by (intro exI[of _ ?d]) simp
qed

theorem upgrade_additive_idempotent_witness:
  "\<exists>database'. onupgradeneeded 1 version1_database = Inr database'
     \<and> objectStores version1_database MOODS_STORE = Some [mood_on ''2024-03-10'']
     \<and> objectStores database' MOODS_STORE = Some [mood_on ''2024-03-10'']
     \<and> objectStores version1_database JOURNAL_STORE = None
     \<and> JOURNAL_STORE \<in> dom (objectStores database')
     \<and> objectStores database' JOURNAL_STORE = Some []"
proof -
  have present: "objectStores version1_database MOODS_STORE = Some [mood_on ''2024-03-10'']"
    by (simp add: version1_database_def)
  have absent: "objectStores version1_database JOURNAL_STORE = None"
    using store_names_distinct by (auto simp: version1_database_def)
  from upgrade_additive_idempotent [of 1 version1_database]
  obtain database' where r: "onupgradeneeded 1 version1_database = Inr database'"
    and names: "dom (objectStores database') =
         dom (objectStores version1_database) \<union> {MOODS_STORE}
           \<union> (if (1::nat) < 2 then {STRESS_QUIZ_STORE, JOURNAL_STORE} else {})"
    and keeps: "\<forall>name store. objectStores version1_database name = Some store
            \<longrightarrow> objectStores database' name = Some store"
    and fresh: "\<forall>name. objectStores version1_database name = None
            \<and> name \<in> dom (objectStores database')
            \<longrightarrow> objectStores database' name = Some []"
    by blast
  have created: "JOURNAL_STORE \<in> dom (objectStores database')"
    using names by simp
  show ?thesis
    using r present absent created keeps fresh by blast
qed

text \<open>
  Opening a database that already has the current version does not run the handler at
  all: the database is handed over as it is.
\<close>

lemma indexedDB_open_current_version:
  "version database = DB_VERSION \<Longrightarrow>
   indexedDB_open database DB_VERSION onupgradeneeded = Inr database"
  by (simp add: indexedDB_open_def)

section \<open>Accessors: how a call runs\<close>

lemmas run_defs = readonly_def readwrite_def connection_def request_outcome_def
  IDBObjectStore_get_def IDBObjectStore_put_def IDBObjectStore_delete_def IDBObjectStore_clear_def
  MOODS_STORE_def STRESS_QUIZ_STORE_def JOURNAL_STORE_def

lemma request_outcome_no_faults: "faults w = [] \<Longrightarrow> request_outcome w = (None, w)"
  by (simp add: request_outcome_def)

lemma connection_open: "db w = Some database \<Longrightarrow> connection w = (Inr database, w)"
  by (simp add: connection_def)

lemma connection_db: "connection w = (Inr database, w1) \<Longrightarrow> db w1 = Some database"
  by (auto simp: connection_def split: option.splits prod.splits sum.splits)

lemma connection_again: "connection w = (Inr database, w1) \<Longrightarrow> connection w1 = (Inr database, w1)"
  by (rule connection_open) (rule connection_db)

lemma request_outcome_db: "request_outcome w = (r, w') \<Longrightarrow> db w' = db w"
  by (auto simp: request_outcome_def split: list.splits)

lemma readonly_run:
  "connection w = (Inr database, w1) \<Longrightarrow> objectStores database name = Some store \<Longrightarrow>
   readonly name request w =
     (case request_outcome w1 of
        (Some e, w2) \<Rightarrow> (Inl e, w2)
      | (None, w2) \<Rightarrow> (Inr (request store), w2))"
  by (simp add: readonly_def)

lemma readwrite_run:
  "connection w = (Inr database, w1) \<Longrightarrow> objectStores database name = Some store \<Longrightarrow>
   readwrite name request w =
     (case request_outcome w1 of
        (Some e, w2) \<Rightarrow> (Inl e, w2)
      | (None, w2) \<Rightarrow>
          (Inr (), w2\<lparr>db := Some (database\<lparr>objectStores :=
                       (objectStores database)(name \<mapsto> request store)\<rparr>)\<rparr>))"
  by (simp add: readwrite_def)

lemma readwrite_InrD:
  "readwrite name request w = (Inr u, w') \<Longrightarrow>
   \<exists>database w1 store w2. connection w = (Inr database, w1)
      \<and> objectStores database name = Some store
      \<and> request_outcome w1 = (None, w2)
      \<and> w' = w2\<lparr>db := Some (database\<lparr>objectStores :=
                       (objectStores database)(name \<mapsto> request store)\<rparr>)\<rparr>"
  by (auto simp: readwrite_def split: prod.splits sum.splits option.splits)

lemma readonly_InrD:
  "readonly name request w = (Inr r, w') \<Longrightarrow>
   \<exists>database w1 store. connection w = (Inr database, w1)
      \<and> objectStores database name = Some store
      \<and> request_outcome w1 = (None, w')
      \<and> r = request store"
  by (auto simp: readonly_def split: prod.splits sum.splits option.splits)

lemma readwrite_noop:
  assumes "connection w = (Inr database, w1)" "objectStores database name = Some store"
    "request_outcome w1 = (None, w2)" "request store = store"
  shows "readwrite name request w = (Inr (), w2)"
proof -
  have "db w2 = Some database"
    using connection_db [OF assms(1)] request_outcome_db [OF assms(3)] by simp
  moreover have "(objectStores database)(name \<mapsto> store) = objectStores database"
    using assms(2) by (simp add: map_upd_triv)
  ultimately show ?thesis
    using assms by (simp add: readwrite_run)
qed

lemma put_then_get:
  "IDBObjectStore_get (IDBObjectStore_put store entry) (stored_date entry) = Some entry"
  unfolding IDBObjectStore_get_def IDBObjectStore_put_def by (simp add: AList.update_conv')

lemma delete_absent:
  "IDBObjectStore_get store key = None \<Longrightarrow> IDBObjectStore_delete store key = store"
  unfolding IDBObjectStore_get_def IDBObjectStore_delete_def
  by (rule AList.delete_id) (simp add: map_of_eq_None_iff)

lemma delete_twice:
  "IDBObjectStore_delete (IDBObjectStore_delete store key) key = IDBObjectStore_delete store key"
  unfolding IDBObjectStore_delete_def by (rule AList.delete_idem)

lemma get_after_delete: "IDBObjectStore_get (IDBObjectStore_delete store key) key = None"
  unfolding IDBObjectStore_get_def IDBObjectStore_delete_def by (simp add: AList.delete_conv')

text \<open>
  The first call of an accessor opens the database. In a browser that never held it the
  upgrade runs from version 0 and the connection has the three stores, empty; over the
  database of version 1 it adds the two new stores and keeps the moods.
\<close>

lemma connection_fresh_browser:
  "\<exists>database w1. connection fresh_browser = (Inr database, w1)
     \<and> db w1 = Some database \<and> initPromise w1 = Some (Inr ()) \<and> version database = 2
     \<and> objectStores database MOODS_STORE = Some []
     \<and> objectStores database STRESS_QUIZ_STORE = Some []
     \<and> objectStores database JOURNAL_STORE = Some []"
  by (simp add: connection_def initIndexedDB_def settle_def request_outcome_def
      indexedDB_open_def onupgradeneeded_result ensureStore_def DB_VERSION_def
      fresh_browser_def store_names_distinct)

lemma connection_version1_browser:
  "\<exists>database w1. connection version1_browser = (Inr database, w1)
     \<and> db w1 = Some database \<and> version database = 2
     \<and> objectStores database MOODS_STORE = Some [mood_on ''2024-03-10'']
     \<and> objectStores database STRESS_QUIZ_STORE = Some []
     \<and> objectStores database JOURNAL_STORE = Some []"
  by (simp add: connection_def initIndexedDB_def settle_def request_outcome_def
      indexedDB_open_def onupgradeneeded_result ensureStore_def DB_VERSION_def
      version1_browser_def fresh_browser_def version1_database_def store_names_distinct)

text \<open>
  C8. Deleting a date that has no record succeeds and is a no-op: when the lookup of the
  date answers null, the delete started in the same runtime resolves, and leaves the
  very runtime the lookup leaves. Deleting a second time leaves the database as the first
  delete left it, and resolves unless the backend fails the request. Both hold for
  \<open>deleteMood\<close> and for \<open>deleteJournal\<close>.
\<close>

theorem delete_idempotent:
  "(getMoodByDate key w = (Inr None, w') \<longrightarrow> deleteMood key w = (Inr (), w'))
   \<and> (getJournalByDate key w = (Inr None, w') \<longrightarrow> deleteJournal key w = (Inr (), w'))
   \<and> (deleteMood key w = (Inr (), w') \<longrightarrow>
        db (snd (deleteMood key w')) = db w'
        \<and> (fst (request_outcome w') = None \<longrightarrow> fst (deleteMood key w') = Inr ()))
   \<and> (deleteJournal key w = (Inr (), w') \<longrightarrow>
        db (snd (deleteJournal key w')) = db w'
        \<and> (fst (request_outcome w') = None \<longrightarrow> fst (deleteJournal key w') = Inr ()))"
proof -
  have absent: "readwrite name (\<lambda>store. IDBObjectStore_delete store key) w = (Inr (), w')"
    if "readonly name (\<lambda>store. IDBObjectStore_get store key) w = (Inr None, w')" for name
  proof -
    from readonly_InrD [OF that] obtain database w1 store
      where c: "connection w = (Inr database, w1)"
        and s: "objectStores database name = Some store"
        and r: "request_outcome w1 = (None, w')"
        and n: "None = IDBObjectStore_get store key"
      by blast
    have "IDBObjectStore_delete store key = store"
      using n by (simp add: delete_absent)
    then show ?thesis
      by (rule readwrite_noop [OF c s r])
  qed
  have twice: "db (snd (readwrite name (\<lambda>store. IDBObjectStore_delete store key) w')) = db w'
      \<and> (fst (request_outcome w') = None
           \<longrightarrow> fst (readwrite name (\<lambda>store. IDBObjectStore_delete store key) w') = Inr ())"
    if "readwrite name (\<lambda>store. IDBObjectStore_delete store key) w = (Inr (), w')" for name
  proof -
    from readwrite_InrD [OF that] obtain database w1 store w2
      where c: "connection w = (Inr database, w1)"
        and s: "objectStores database name = Some store"
        and r: "request_outcome w1 = (None, w2)"
        and w': "w' = w2\<lparr>db := Some (database\<lparr>objectStores :=
                       (objectStores database)(name \<mapsto> IDBObjectStore_delete store key)\<rparr>)\<rparr>"
      by blast
    let ?d = "database\<lparr>objectStores :=
                       (objectStores database)(name \<mapsto> IDBObjectStore_delete store key)\<rparr>"
    have c': "connection w' = (Inr ?d, w')"
      by (simp add: w' connection_open)
    have s': "objectStores ?d name = Some (IDBObjectStore_delete store key)"
      by simp
    obtain f w3 where r': "request_outcome w' = (f, w3)"
      by (cases "request_outcome w'")
    have d3: "db w3 = Some ?d"
      using request_outcome_db [OF r'] by (simp add: w')
    show ?thesis
    proof (cases f)
      case None
      have r'': "request_outcome w' = (None, w3)"
        using r' None by simp
      have "readwrite name (\<lambda>store. IDBObjectStore_delete store key) w' = (Inr (), w3)"
        by (rule readwrite_noop [OF c' s' r'']) (rule delete_twice)
      then show ?thesis
        using d3 request_outcome_db [OF r'] by simp
    next
      case (Some e)
      have "readwrite name (\<lambda>store. IDBObjectStore_delete store key) w' = (Inl e, w3)"
        using r' Some by (simp add: readwrite_run [OF c' s'])
      then show ?thesis
        using request_outcome_db [OF r'] r' Some by simp
    qed
  qed
  show ?thesis
    unfolding getMoodByDate_def deleteMood_def getJournalByDate_def deleteJournal_def
  proof (intro conjI impI)
    assume "readonly MOODS_STORE (\<lambda>store. IDBObjectStore_get store key) w = (Inr None, w')"
    then show "readwrite MOODS_STORE (\<lambda>store. IDBObjectStore_delete store key) w = (Inr (), w')"
      by (rule absent)
  next
    assume "readonly JOURNAL_STORE (\<lambda>store. IDBObjectStore_get store key) w = (Inr None, w')"
    then show "readwrite JOURNAL_STORE (\<lambda>store. IDBObjectStore_delete store key) w = (Inr (), w')"
      by (rule absent)
  next
    assume a: "readwrite MOODS_STORE (\<lambda>store. IDBObjectStore_delete store key) w = (Inr (), w')"
    show "db (snd (readwrite MOODS_STORE (\<lambda>store. IDBObjectStore_delete store key) w')) = db w'"
      using twice [OF a] by (rule conjunct1)
    assume "fst (request_outcome w') = None"
    with twice [OF a]
    show "fst (readwrite MOODS_STORE (\<lambda>store. IDBObjectStore_delete store key) w') = Inr ()"
      by (elim conjE impE)
  next
    assume a: "readwrite JOURNAL_STORE (\<lambda>store. IDBObjectStore_delete store key) w = (Inr (), w')"
    show "db (snd (readwrite JOURNAL_STORE (\<lambda>store. IDBObjectStore_delete store key) w')) = db w'"
      using twice [OF a] by (rule conjunct1)
    assume "fst (request_outcome w') = None"
    with twice [OF a]
    show "fst (readwrite JOURNAL_STORE (\<lambda>store. IDBObjectStore_delete store key) w') = Inr ()"
      by (elim conjE impE)
  qed
qed

theorem delete_idempotent_witness:
  "getMoodByDate ''2024-01-01'' utc_runtime = (Inr None, utc_runtime)
   \<and> deleteMood ''2024-01-01'' utc_runtime = (Inr (), utc_runtime)
   \<and> fst (deleteJournal ''2024-03-10'' utc_runtime) = Inr ()
   \<and> fst (request_outcome (snd (deleteJournal ''2024-03-10'' utc_runtime))) = None
   \<and> db (snd (deleteJournal ''2024-03-10'' (snd (deleteJournal ''2024-03-10'' utc_runtime))))
       = db (snd (deleteJournal ''2024-03-10'' utc_runtime))
   \<and> fst (deleteJournal ''2024-03-10'' (snd (deleteJournal ''2024-03-10'' utc_runtime))) = Inr ()"
proof -
  have absent: "getMoodByDate ''2024-01-01'' utc_runtime = (Inr None, utc_runtime)"
    by (simp add: getMoodByDate_def utc_runtime_def mood_on_def run_defs)
  obtain w' where first: "deleteJournal ''2024-03-10'' utc_runtime = (Inr (), w')"
    and quiet: "fst (request_outcome w') = None"
    by (simp add: deleteJournal_def utc_runtime_def run_defs)
  from delete_idempotent [of "''2024-01-01''" utc_runtime utc_runtime] absent
  have noop: "deleteMood ''2024-01-01'' utc_runtime = (Inr (), utc_runtime)"
    by blast
  from delete_idempotent [of "''2024-03-10''" utc_runtime w'] first quiet
  have twice: "db (snd (deleteJournal ''2024-03-10'' w')) = db w'
      \<and> fst (deleteJournal ''2024-03-10'' w') = Inr ()"
    by blast
  show ?thesis
    using absent noop first quiet twice by simp
qed

section \<open>Accessors: round trip, frame, missing keys, last write wins\<close>

lemma readwrite_then_db:
  assumes "readwrite name request w = (Inr u, w')"
  shows "\<exists>database store. db w' = Some database
           \<and> objectStores database name = Some (request store)"
  using readwrite_InrD [OF assms] by auto

lemma readonly_open:
  "db w = Some database \<Longrightarrow> objectStores database name = Some store \<Longrightarrow>
   readonly name request w =
     (case request_outcome w of
        (Some e, w2) \<Rightarrow> (Inl e, w2)
      | (None, w2) \<Rightarrow> (Inr (request store), w2))"
  by (rule readonly_run [OF connection_open])

lemma put_then_lookup:
  assumes "readwrite name (\<lambda>store. IDBObjectStore_put store entry) w = (Inr (), w')"
  shows "readonly name (\<lambda>store. IDBObjectStore_get store (stored_date entry)) w' =
           (case request_outcome w' of
              (Some e, w2) \<Rightarrow> (Inl e, w2)
            | (None, w2) \<Rightarrow> (Inr (Some entry), w2))"
proof -
  from readwrite_then_db [OF assms] obtain database store
    where d: "db w' = Some database"
      and s: "objectStores database name = Some (IDBObjectStore_put store entry)"
    by blast
  show ?thesis
    by (simp add: readonly_open [OF d s] put_then_get split: prod.split option.split)
qed

text \<open>
  C6. Round trip, for each record type: once \<open>put\<close> of a record has resolved, the
  lookup of the record's date in the runtime it leaves answers that very record, field
  for field, unless the backend fails the lookup's own request, in which case it is
  rejected with that request's error.
\<close>

theorem put_get_round_trip:
  "(saveMood m w = (Inr (), w') \<longrightarrow>
      getMoodByDate (MoodEntry.date m) w' =
        (case request_outcome w' of
           (Some e, w2) \<Rightarrow> (Inl e, w2)
         | (None, w2) \<Rightarrow> (Inr (Some (Mood m)), w2)))
   \<and> (saveQuizResult q w = (Inr (), w') \<longrightarrow>
      getQuizByDate (StressQuizEntry.date q) w' =
        (case request_outcome w' of
           (Some e, w2) \<Rightarrow> (Inl e, w2)
         | (None, w2) \<Rightarrow> (Inr (Some (Quiz q)), w2)))
   \<and> (saveJournal j w = (Inr (), w') \<longrightarrow>
      getJournalByDate (JournalEntry.date j) w' =
        (case request_outcome w' of
           (Some e, w2) \<Rightarrow> (Inl e, w2)
         | (None, w2) \<Rightarrow> (Inr (Some (Journal j)), w2)))"
  unfolding saveMood_def getMoodByDate_def saveQuizResult_def getQuizByDate_def
    saveJournal_def getJournalByDate_def
proof (intro conjI impI)
  assume "readwrite MOODS_STORE (\<lambda>store. IDBObjectStore_put store (Mood m)) w = (Inr (), w')"
  from put_then_lookup [OF this]
  show "readonly MOODS_STORE (\<lambda>store. IDBObjectStore_get store (MoodEntry.date m)) w' =
        (case request_outcome w' of
           (Some e, w2) \<Rightarrow> (Inl e, w2)
         | (None, w2) \<Rightarrow> (Inr (Some (Mood m)), w2))"
    by simp
next
  assume "readwrite STRESS_QUIZ_STORE (\<lambda>store. IDBObjectStore_put store (Quiz q)) w = (Inr (), w')"
  from put_then_lookup [OF this]
  show "readonly STRESS_QUIZ_STORE (\<lambda>store. IDBObjectStore_get store (StressQuizEntry.date q)) w' =
        (case request_outcome w' of
           (Some e, w2) \<Rightarrow> (Inl e, w2)
         | (None, w2) \<Rightarrow> (Inr (Some (Quiz q)), w2))"
    by simp
next
  assume "readwrite JOURNAL_STORE (\<lambda>store. IDBObjectStore_put store (Journal j)) w = (Inr (), w')"
  from put_then_lookup [OF this]
  show "readonly JOURNAL_STORE (\<lambda>store. IDBObjectStore_get store (JournalEntry.date j)) w' =
        (case request_outcome w' of
           (Some e, w2) \<Rightarrow> (Inl e, w2)
         | (None, w2) \<Rightarrow> (Inr (Some (Journal j)), w2))"
    by simp
qed

theorem put_get_round_trip_witness:
  "fst (saveQuizResult quiz_of_march_11 utc_runtime) = Inr ()
   \<and> fst (getQuizByDate ''2024-03-11'' (snd (saveQuizResult quiz_of_march_11 utc_runtime)))
       = Inr (Some (Quiz quiz_of_march_11))
   \<and> fst (saveJournal journal_of_march_10 utc_runtime) = Inr ()
   \<and> fst (getJournalByDate ''2024-03-10'' (snd (saveJournal journal_of_march_10 utc_runtime)))
       = Inr (Some (Journal journal_of_march_10))"
proof -
  obtain w1 where q: "saveQuizResult quiz_of_march_11 utc_runtime = (Inr (), w1)"
    and q': "request_outcome w1 = (None, w1)"
    by (simp add: saveQuizResult_def utc_runtime_def run_defs)
  obtain w2 where j: "saveJournal journal_of_march_10 utc_runtime = (Inr (), w2)"
    and j': "request_outcome w2 = (None, w2)"
    by (simp add: saveJournal_def utc_runtime_def run_defs)
  from put_get_round_trip [of _ utc_runtime w1 quiz_of_march_11] q q'
  have "getQuizByDate (StressQuizEntry.date quiz_of_march_11) w1
          = (Inr (Some (Quiz quiz_of_march_11)), w1)"
    by simp
  moreover
  from put_get_round_trip [of _ utc_runtime w2 _ journal_of_march_10] j j'
  have "getJournalByDate (JournalEntry.date journal_of_march_10) w2
          = (Inr (Some (Journal journal_of_march_10)), w2)"
    by simp
  ultimately show ?thesis
    using q j by (simp add: quiz_of_march_11_def journal_of_march_10_def)
qed

lemma readwrite_InlD:
  "readwrite name request w = (Inl e, w') \<Longrightarrow> db w' = db (snd (connection w))"
  by (auto simp: readwrite_def request_outcome_db split: prod.splits sum.splits option.splits)

lemma getAll_empty: "IDBObjectStore_getAll [] = []"
  by (simp add: IDBObjectStore_getAll_def Array_sort_def)

text \<open>
  C10. \<open>clearAll\<close> works on \<open>moods\<close> only. When it resolves, the database is the one
  the connection had, with \<open>moods\<close> empty (\<open>getAllMoods\<close> answers the empty array),
  \<open>stressQuizzes\<close>, \<open>journals\<close> and every other store as they were, and the version
  as it was. It resolves whenever the connection is there, \<open>moods\<close> exists and the
  backend does not fail the request; when it is rejected the database is not changed.
\<close>

theorem clearAll_only_moods:
  "(clearAll w = (Inr (), w') \<longrightarrow>
      (\<exists>database w1 database'. connection w = (Inr database, w1) \<and> db w' = Some database'
          \<and> objectStores database' MOODS_STORE = Some []
          \<and> objectStores database' STRESS_QUIZ_STORE = objectStores database STRESS_QUIZ_STORE
          \<and> objectStores database' JOURNAL_STORE = objectStores database JOURNAL_STORE
          \<and> (\<forall>name. name \<noteq> MOODS_STORE
                \<longrightarrow> objectStores database' name = objectStores database name)
          \<and> version database' = version database)
      \<and> getAllMoods w' =
           (case request_outcome w' of
              (Some e, w2) \<Rightarrow> (Inl e, w2)
            | (None, w2) \<Rightarrow> (Inr [], w2)))
   \<and> (connection w = (Inr database0, w1) \<and> objectStores database0 MOODS_STORE = Some store
        \<and> request_outcome w1 = (None, w2) \<longrightarrow> fst (clearAll w) = Inr ())
   \<and> (clearAll w = (Inl e, w') \<longrightarrow> db w' = db (snd (connection w)))"
proof (intro conjI impI)
  assume a: "clearAll w = (Inr (), w')"
  from readwrite_InrD [OF a [unfolded clearAll_def]] obtain database w1 store w2
    where c: "connection w = (Inr database, w1)"
      and w': "w' = w2\<lparr>db := Some (database\<lparr>objectStores :=
                 (objectStores database)(MOODS_STORE \<mapsto> IDBObjectStore_clear store)\<rparr>)\<rparr>"
    by blast
  let ?d = "database\<lparr>objectStores :=
                 (objectStores database)(MOODS_STORE \<mapsto> IDBObjectStore_clear store)\<rparr>"
  have d: "db w' = Some ?d"
    by (simp add: w')
  have m: "objectStores ?d MOODS_STORE = Some []"
    by (simp add: IDBObjectStore_clear_def)
  have frame: "\<forall>name. name \<noteq> MOODS_STORE \<longrightarrow> objectStores ?d name = objectStores database name"
    by simp
  have q: "objectStores ?d STRESS_QUIZ_STORE = objectStores database STRESS_QUIZ_STORE"
    using store_names_distinct by simp
  have j: "objectStores ?d JOURNAL_STORE = objectStores database JOURNAL_STORE"
    using store_names_distinct by simp
  have v: "version ?d = version database"
    by simp
  show "\<exists>database w1 database'. connection w = (Inr database, w1) \<and> db w' = Some database'
          \<and> objectStores database' MOODS_STORE = Some []
          \<and> objectStores database' STRESS_QUIZ_STORE = objectStores database STRESS_QUIZ_STORE
          \<and> objectStores database' JOURNAL_STORE = objectStores database JOURNAL_STORE
          \<and> (\<forall>name. name \<noteq> MOODS_STORE
                \<longrightarrow> objectStores database' name = objectStores database name)
          \<and> version database' = version database"
    using c d m q j frame v by blast
  show "getAllMoods w' =
           (case request_outcome w' of
              (Some e, w2) \<Rightarrow> (Inl e, w2)
            | (None, w2) \<Rightarrow> (Inr [], w2))"
    unfolding getAllMoods_def
    by (simp add: readonly_open [OF d m] getAll_empty split: prod.split option.split)
next
  assume "connection w = (Inr database0, w1) \<and> objectStores database0 MOODS_STORE = Some store
        \<and> request_outcome w1 = (None, w2)"
  then show "fst (clearAll w) = Inr ()"
    by (simp add: clearAll_def readwrite_run [of w database0 w1 MOODS_STORE store])
next
  assume "clearAll w = (Inl e, w')"
  then show "db w' = db (snd (connection w))"
    unfolding clearAll_def by (rule readwrite_InlD)
qed

theorem clearAll_only_moods_witness:
  "fst (clearAll utc_runtime) = Inr ()
   \<and> (\<exists>database'. db (snd (clearAll utc_runtime)) = Some database'
        \<and> objectStores database' MOODS_STORE = Some []
        \<and> objectStores database' JOURNAL_STORE = Some [(''2024-03-10'', Journal journal_of_march_10)]
        \<and> objectStores database' STRESS_QUIZ_STORE = Some [])"
proof -
  obtain database where c: "connection utc_runtime = (Inr database, utc_runtime)"
    and m: "objectStores database MOODS_STORE =
              Some [mood_on ''2024-03-09'', mood_on ''2024-03-10'', mood_on ''2024-03-11'']"
    and j: "objectStores database JOURNAL_STORE = Some [(''2024-03-10'', Journal journal_of_march_10)]"
    and q: "objectStores database STRESS_QUIZ_STORE = Some []"
    by (simp add: utc_runtime_def run_defs)
  have r: "request_outcome utc_runtime = (None, utc_runtime)"
    by (simp add: utc_runtime_def request_outcome_def)
  from clearAll_only_moods [of utc_runtime _ database utc_runtime _ utc_runtime] c m r
  have ok: "fst (clearAll utc_runtime) = Inr ()"
    by blast
  then obtain w' where a: "clearAll utc_runtime = (Inr (), w')"
    by (cases "clearAll utc_runtime") auto
  from clearAll_only_moods [of utc_runtime w'] a
  obtain database1 w1 database' where c': "connection utc_runtime = (Inr database1, w1)"
    and d': "db w' = Some database'"
    and m': "objectStores database' MOODS_STORE = Some []"
    and q': "objectStores database' STRESS_QUIZ_STORE = objectStores database1 STRESS_QUIZ_STORE"
    and j': "objectStores database' JOURNAL_STORE = objectStores database1 JOURNAL_STORE"
    by blast
  have "database1 = database"
    using c c' by simp
  then show ?thesis
    using ok a d' m' q' j' j q by simp
qed







lemma list_all_update:
  "list_all (\<lambda>(key, entry). stored_date entry = key) store \<Longrightarrow>
   list_all (\<lambda>(key, entry). stored_date entry = key) (AList.update (stored_date e) e store)"
  by (induction store) auto

lemma put_wellformed:
  "store_wellformed store \<Longrightarrow> store_wellformed (IDBObjectStore_put store entry)"
  by (simp add: store_wellformed_def IDBObjectStore_put_def AList.distinct_update list_all_update)

lemma delete_wellformed:
  "store_wellformed store \<Longrightarrow> store_wellformed (IDBObjectStore_delete store key)"
proof -
  assume wf: "store_wellformed store"
  have "distinct (map fst (AList.delete key store))"
    using wf by (simp add: store_wellformed_def AList.distinct_delete)
  moreover have "list_all (\<lambda>(key, entry). stored_date entry = key) (AList.delete key store)"
    using wf by (auto simp: store_wellformed_def AList.delete_eq list_all_iff)
  ultimately show ?thesis
    by (simp add: store_wellformed_def IDBObjectStore_delete_def)
qed

lemma clear_wellformed: "store_wellformed (IDBObjectStore_clear store)"
  by (simp add: store_wellformed_def IDBObjectStore_clear_def)

lemma wellformed_no_other:
  "list_all (\<lambda>(k, entry). stored_date entry = k) store \<Longrightarrow> key \<notin> fst ` set store \<Longrightarrow>
   filter (\<lambda>entry. stored_date entry = key) (map snd store) = []"
  by (induction store) auto

lemma wellformed_one_record:
  "store_wellformed store \<Longrightarrow> map_of store key = Some v \<Longrightarrow>
   filter (\<lambda>entry. stored_date entry = key) (map snd store) = [v]"
proof (induction store)
  case Nil
  then show ?case by simp
next
  case (Cons a store)
  obtain k x where a: "a = (k, x)" by (cases a)
  from Cons.prems(1) have wf: "store_wellformed store" and k: "k \<notin> fst ` set store"
    and x: "stored_date x = k"
    and all: "list_all (\<lambda>(k, entry). stored_date entry = k) store"
    by (auto simp: store_wellformed_def a)
  show ?case
  proof (cases "k = key")
    case True
    then have "v = x" using Cons.prems(2) by (simp add: a)
    moreover have "filter (\<lambda>entry. stored_date entry = key) (map snd store) = []"
      using all k True by (intro wellformed_no_other) auto
    ultimately show ?thesis using True x by (simp add: a)
  next
    case False
    then have "map_of store key = Some v" using Cons.prems(2) by (simp add: a)
    from Cons.IH [OF wf this] show ?thesis using False x by (simp add: a)
  qed
qed

lemma mset_insert_sorted: "mset (insert_sorted compareFn x ys) = add_mset x (mset ys)"
  by (induction ys) auto

lemma mset_Array_sort: "mset (Array_sort compareFn xs) = mset xs"
  by (induction xs) (auto simp: Array_sort_def mset_insert_sorted)

lemma getAll_one_record:
  assumes "store_wellformed store" "IDBObjectStore_get store key = Some v"
  shows "records_of_date key (IDBObjectStore_getAll store) = [v]"
proof -
  have "mset (records_of_date key (IDBObjectStore_getAll store)) =
        mset (filter (\<lambda>entry. stored_date entry = key) (map snd store))"
    by (simp add: records_of_date_def IDBObjectStore_getAll_def mset_Array_sort)
  also have "\<dots> = mset [v]"
    using wellformed_one_record [OF assms(1)] assms(2) by (simp add: IDBObjectStore_get_def)
  finally show ?thesis by simp
qed

lemma getAll_at_most_one:
  assumes "store_wellformed store"
  shows "length (records_of_date key (IDBObjectStore_getAll store)) \<le> 1"
proof -
  have "mset (records_of_date key (IDBObjectStore_getAll store)) =
        mset (filter (\<lambda>entry. stored_date entry = key) (map snd store))"
    by (simp add: records_of_date_def IDBObjectStore_getAll_def mset_Array_sort)
  then have "length (records_of_date key (IDBObjectStore_getAll store)) =
        length (filter (\<lambda>entry. stored_date entry = key) (map snd store))"
    by (rule mset_eq_length)
  also have "\<dots> \<le> 1"
  proof (cases "map_of store key")
    case None
    then have "key \<notin> fst ` set store"
      by (simp add: map_of_eq_None_iff)
    with assms have "filter (\<lambda>entry. stored_date entry = key) (map snd store) = []"
      by (intro wellformed_no_other) (simp_all add: store_wellformed_def)
    then show ?thesis by simp
  next
    case (Some v)
    from wellformed_one_record [OF assms this] show ?thesis by simp
  qed
  finally show ?thesis .
qed

lemma readwrite_quiet:
  assumes "connection w = (Inr database, w1)" "objectStores database name = Some store"
    "faults w1 = []"
  shows "readwrite name request w =
     (Inr (), w1\<lparr>db := Some (database\<lparr>objectStores :=
                       (objectStores database)(name \<mapsto> request store)\<rparr>)\<rparr>)"
  by (simp add: readwrite_run [OF assms(1,2)] request_outcome_no_faults [OF assms(3)])

lemma readonly_quiet:
  assumes "db w = Some database" "objectStores database name = Some store" "faults w = []"
  shows "readonly name request w = (Inr (request store), w)"
  by (simp add: readonly_open [OF assms(1,2)] request_outcome_no_faults [OF assms(3)])

lemma two_puts:
  assumes c: "connection w = (Inr database, w1)"
    and f: "faults w1 = []"
    and s: "objectStores database name = Some store"
    and wf: "store_wellformed store"
    and same: "stored_date latter = stored_date former"
  shows "\<exists>wa wb. readwrite name (\<lambda>store. IDBObjectStore_put store former) w = (Inr (), wa)
      \<and> readwrite name (\<lambda>store. IDBObjectStore_put store latter) wa = (Inr (), wb)
      \<and> readonly name (\<lambda>store. IDBObjectStore_get store (stored_date former)) wb
           = (Inr (Some latter), wb)
      \<and> (\<exists>entries. readonly name IDBObjectStore_getAll wb = (Inr entries, wb)
            \<and> records_of_date (stored_date former) entries = [latter]
            \<and> (\<forall>key. length (records_of_date key entries) \<le> 1))"
proof -
  let ?s1 = "IDBObjectStore_put store former"
  let ?s2 = "IDBObjectStore_put ?s1 latter"
  let ?d1 = "database\<lparr>objectStores := (objectStores database)(name \<mapsto> ?s1)\<rparr>"
  let ?d2 = "?d1\<lparr>objectStores := (objectStores ?d1)(name \<mapsto> ?s2)\<rparr>"
  let ?wa = "w1\<lparr>db := Some ?d1\<rparr>"
  let ?wb = "?wa\<lparr>db := Some ?d2\<rparr>"
  have 1: "readwrite name (\<lambda>store. IDBObjectStore_put store former) w = (Inr (), ?wa)"
    by (rule readwrite_quiet [OF c s f])
  have ca: "connection ?wa = (Inr ?d1, ?wa)"
    by (simp add: connection_open)
  have 2: "readwrite name (\<lambda>store. IDBObjectStore_put store latter) ?wa = (Inr (), ?wb)"
    by (rule readwrite_quiet [OF ca]) (simp_all add: f)
  have db: "db ?wb = Some ?d2" and sb: "objectStores ?d2 name = Some ?s2" and fb: "faults ?wb = []"
    by (simp_all add: f)
  have g: "IDBObjectStore_get ?s2 (stored_date former) = Some latter"
    using put_then_get [of ?s1 latter] by (simp add: same)
  have 3: "readonly name (\<lambda>store. IDBObjectStore_get store (stored_date former)) ?wb
           = (Inr (Some latter), ?wb)"
    using readonly_quiet [OF db sb fb, of "\<lambda>store. IDBObjectStore_get store (stored_date former)"]
    by (simp only: g)
  have 4: "readonly name IDBObjectStore_getAll ?wb = (Inr (IDBObjectStore_getAll ?s2), ?wb)"
    by (rule readonly_quiet [OF db sb fb])
  have 5: "records_of_date (stored_date former) (IDBObjectStore_getAll ?s2) = [latter]"
    by (rule getAll_one_record [OF put_wellformed [OF put_wellformed [OF wf]] g])
  have 6: "\<forall>key. length (records_of_date key (IDBObjectStore_getAll ?s2)) \<le> 1"
    by (intro allI getAll_at_most_one put_wellformed wf)
  show ?thesis
    using 1 2 3 4 5 6 by blast
qed

text \<open>
  C5. Last write wins, in each collection: with the connection there, a backend that
  does not fail and a well-formed store, \<open>put\<close> of a record and then \<open>put\<close> of another
  record of the same date both resolve; after them the lookup of the date answers the
  latter record, and among all records of the collection exactly one has that date, the
  latter; no date has more than one record.
\<close>

theorem last_write_wins:
  "(connection w = (Inr database, w1) \<and> faults w1 = []
      \<and> objectStores database MOODS_STORE = Some store \<and> store_wellformed store
      \<and> MoodEntry.date m2 = MoodEntry.date m1 \<longrightarrow>
      (\<exists>wa wb. saveMood m1 w = (Inr (), wa) \<and> saveMood m2 wa = (Inr (), wb)
         \<and> getMoodByDate (MoodEntry.date m1) wb = (Inr (Some (Mood m2)), wb)
         \<and> (\<exists>entries. getAllMoods wb = (Inr entries, wb)
               \<and> records_of_date (MoodEntry.date m1) entries = [Mood m2]
               \<and> (\<forall>key. length (records_of_date key entries) \<le> 1))))
   \<and> (connection w = (Inr database, w1) \<and> faults w1 = []
      \<and> objectStores database STRESS_QUIZ_STORE = Some store \<and> store_wellformed store
      \<and> StressQuizEntry.date q2 = StressQuizEntry.date q1 \<longrightarrow>
      (\<exists>wa wb. saveQuizResult q1 w = (Inr (), wa) \<and> saveQuizResult q2 wa = (Inr (), wb)
         \<and> getQuizByDate (StressQuizEntry.date q1) wb = (Inr (Some (Quiz q2)), wb)
         \<and> (\<exists>entries. getAllQuizzes wb = (Inr entries, wb)
               \<and> records_of_date (StressQuizEntry.date q1) entries = [Quiz q2]
               \<and> (\<forall>key. length (records_of_date key entries) \<le> 1))))
   \<and> (connection w = (Inr database, w1) \<and> faults w1 = []
      \<and> objectStores database JOURNAL_STORE = Some store \<and> store_wellformed store
      \<and> JournalEntry.date j2 = JournalEntry.date j1 \<longrightarrow>
      (\<exists>wa wb. saveJournal j1 w = (Inr (), wa) \<and> saveJournal j2 wa = (Inr (), wb)
         \<and> getJournalByDate (JournalEntry.date j1) wb = (Inr (Some (Journal j2)), wb)
         \<and> (\<exists>entries. getAllJournals wb = (Inr entries, wb)
               \<and> records_of_date (JournalEntry.date j1) entries = [Journal j2]
               \<and> (\<forall>key. length (records_of_date key entries) \<le> 1))))"
  unfolding saveMood_def getMoodByDate_def getAllMoods_def
    saveQuizResult_def getQuizByDate_def getAllQuizzes_def
    saveJournal_def getJournalByDate_def getAllJournals_def
proof (intro conjI impI)
  assume a: "connection w = (Inr database, w1) \<and> faults w1 = []
      \<and> objectStores database MOODS_STORE = Some store \<and> store_wellformed store
      \<and> MoodEntry.date m2 = MoodEntry.date m1"
  then have "stored_date (Mood m2) = stored_date (Mood m1)" by simp
  from two_puts [OF _ _ _ _ this, of w database w1 MOODS_STORE store] a
  show "\<exists>wa wb. readwrite MOODS_STORE (\<lambda>store. IDBObjectStore_put store (Mood m1)) w = (Inr (), wa)
      \<and> readwrite MOODS_STORE (\<lambda>store. IDBObjectStore_put store (Mood m2)) wa = (Inr (), wb)
      \<and> readonly MOODS_STORE (\<lambda>store. IDBObjectStore_get store (MoodEntry.date m1)) wb
           = (Inr (Some (Mood m2)), wb)
      \<and> (\<exists>entries. readonly MOODS_STORE IDBObjectStore_getAll wb = (Inr entries, wb)
            \<and> records_of_date (MoodEntry.date m1) entries = [Mood m2]
               \<and> (\<forall>key. length (records_of_date key entries) \<le> 1))"
    by simp
next
  assume a: "connection w = (Inr database, w1) \<and> faults w1 = []
      \<and> objectStores database STRESS_QUIZ_STORE = Some store \<and> store_wellformed store
      \<and> StressQuizEntry.date q2 = StressQuizEntry.date q1"
  then have "stored_date (Quiz q2) = stored_date (Quiz q1)" by simp
  from two_puts [OF _ _ _ _ this, of w database w1 STRESS_QUIZ_STORE store] a
  show "\<exists>wa wb. readwrite STRESS_QUIZ_STORE (\<lambda>store. IDBObjectStore_put store (Quiz q1)) w = (Inr (), wa)
      \<and> readwrite STRESS_QUIZ_STORE (\<lambda>store. IDBObjectStore_put store (Quiz q2)) wa = (Inr (), wb)
      \<and> readonly STRESS_QUIZ_STORE (\<lambda>store. IDBObjectStore_get store (StressQuizEntry.date q1)) wb
           = (Inr (Some (Quiz q2)), wb)
      \<and> (\<exists>entries. readonly STRESS_QUIZ_STORE IDBObjectStore_getAll wb = (Inr entries, wb)
            \<and> records_of_date (StressQuizEntry.date q1) entries = [Quiz q2]
               \<and> (\<forall>key. length (records_of_date key entries) \<le> 1))"
    by simp
next
  assume a: "connection w = (Inr database, w1) \<and> faults w1 = []
      \<and> objectStores database JOURNAL_STORE = Some store \<and> store_wellformed store
      \<and> JournalEntry.date j2 = JournalEntry.date j1"
  then have "stored_date (Journal j2) = stored_date (Journal j1)" by simp
  from two_puts [OF _ _ _ _ this, of w database w1 JOURNAL_STORE store] a
  show "\<exists>wa wb. readwrite JOURNAL_STORE (\<lambda>store. IDBObjectStore_put store (Journal j1)) w = (Inr (), wa)
      \<and> readwrite JOURNAL_STORE (\<lambda>store. IDBObjectStore_put store (Journal j2)) wa = (Inr (), wb)
      \<and> readonly JOURNAL_STORE (\<lambda>store. IDBObjectStore_get store (JournalEntry.date j1)) wb
           = (Inr (Some (Journal j2)), wb)
      \<and> (\<exists>entries. readonly JOURNAL_STORE IDBObjectStore_getAll wb = (Inr entries, wb)
            \<and> records_of_date (JournalEntry.date j1) entries = [Journal j2]
               \<and> (\<forall>key. length (records_of_date key entries) \<le> 1))"
    by simp
qed

theorem last_write_wins_witness:
  "\<exists>wa wb. saveMood sad_mood utc_runtime = (Inr (), wa) \<and> saveMood happy_mood wa = (Inr (), wb)
     \<and> getMoodByDate ''2024-03-10'' wb = (Inr (Some (Mood happy_mood)), wb)
     \<and> (\<exists>entries. getAllMoods wb = (Inr entries, wb)
           \<and> records_of_date ''2024-03-10'' entries = [Mood happy_mood]
           \<and> length (records_of_date ''2024-03-09'' entries) \<le> 1)"
proof -
  obtain database where c: "connection utc_runtime = (Inr database, utc_runtime)"
    and m: "objectStores database MOODS_STORE =
              Some [mood_on ''2024-03-09'', mood_on ''2024-03-10'', mood_on ''2024-03-11'']"
    by (simp add: utc_runtime_def run_defs)
  have f: "faults utc_runtime = []"
    by (simp add: utc_runtime_def)
  have wf: "store_wellformed [mood_on ''2024-03-09'', mood_on ''2024-03-10'', mood_on ''2024-03-11'']"
    by (simp add: store_wellformed_def mood_on_def)
  have same: "MoodEntry.date happy_mood = MoodEntry.date sad_mood"
    by (simp add: happy_mood_def sad_mood_def)
  have d: "MoodEntry.date sad_mood = ''2024-03-10''"
    by (simp add: sad_mood_def)
  from last_write_wins [of utc_runtime database utc_runtime _ happy_mood sad_mood] c f m wf same
  have "\<exists>wa wb. saveMood sad_mood utc_runtime = (Inr (), wa) \<and> saveMood happy_mood wa = (Inr (), wb)
     \<and> getMoodByDate (MoodEntry.date sad_mood) wb = (Inr (Some (Mood happy_mood)), wb)
     \<and> (\<exists>entries. getAllMoods wb = (Inr entries, wb)
           \<and> records_of_date (MoodEntry.date sad_mood) entries = [Mood happy_mood]
           \<and> length (records_of_date ''2024-03-09'' entries) \<le> 1)"
    by blast
  then show ?thesis
    by (simp only: d)
qed

section \<open>The quiz: score and level\<close>

lemma foldl_plus: "foldl (\<lambda>sum v. sum + v) a xs = a + sum_list (xs :: int list)"
  by (induction xs arbitrary: a) auto

lemma calculateScore_sum: "calculateScore st = sum_list (map snd (StressQuiz.answers st))"
  by (simp add: calculateScore_def foldl_plus)

lemma getStressLevel_bands:
  "label (getStressLevel totalScore) =
     (if totalScore \<le> 25 then Low else if totalScore \<le> 40 then Moderate else High)"
  by (simp add: getStressLevel_def STRESS_LEVELS_LOW_def STRESS_LEVELS_MODERATE_def
      STRESS_LEVELS_HIGH_def)

lemma handleSubmit_entry_fields:
  "handleSubmit_entry st w = (entry, w') \<Longrightarrow>
     StressQuizEntry.score entry = calculateScore st
     \<and> StressQuizEntry.answers entry = StressQuiz.answers st
     \<and> level entry = label (getStressLevel (calculateScore st))"
  by (auto simp: handleSubmit_entry_def Let_def split: prod.splits)

text \<open>
  C3. The entry that \<open>handleSubmit\<close> constructs, and passes to \<open>saveQuizResult\<close>, has
  as its score the sum of the values of its answers, and as its level Low when the score
  is at most 25, Moderate from 26 to 40, High from 41 to 50. The four boundary scores
  25, 26, 40 and 41 give Low, Moderate, Moderate and High.
\<close>

theorem quiz_score_and_level:
  "(handleSubmit_entry st w = (entry, w') \<longrightarrow>
      StressQuizEntry.score entry = sum_list (map snd (StressQuizEntry.answers entry))
      \<and> (StressQuizEntry.score entry \<le> 25 \<longrightarrow> level entry = Low)
      \<and> (26 \<le> StressQuizEntry.score entry \<and> StressQuizEntry.score entry \<le> 40
            \<longrightarrow> level entry = Moderate)
      \<and> (41 \<le> StressQuizEntry.score entry \<and> StressQuizEntry.score entry \<le> 50
            \<longrightarrow> level entry = High)
      \<and> handleSubmit st w =
           (st\<lparr>StressQuiz.score := StressQuizEntry.score entry, showResults := True\<rparr>,
            snd (saveQuizResult entry w')))
   \<and> label (getStressLevel 25) = Low
   \<and> label (getStressLevel 26) = Moderate
   \<and> label (getStressLevel 40) = Moderate
   \<and> label (getStressLevel 41) = High"
proof (intro conjI impI)
  assume a: "handleSubmit_entry st w = (entry, w')"
  note f = handleSubmit_entry_fields [OF a]
  show "StressQuizEntry.score entry = sum_list (map snd (StressQuizEntry.answers entry))"
    using f by (simp add: calculateScore_sum)
  show "level entry = Low" if "StressQuizEntry.score entry \<le> 25"
    using f that by (simp add: getStressLevel_bands)
  show "level entry = Moderate"
    if "26 \<le> StressQuizEntry.score entry \<and> StressQuizEntry.score entry \<le> 40"
    using f that by (simp add: getStressLevel_bands)
  show "level entry = High"
    if "41 \<le> StressQuizEntry.score entry \<and> StressQuizEntry.score entry \<le> 50"
    using f that by (simp add: getStressLevel_bands)
  show "handleSubmit st w =
           (st\<lparr>StressQuiz.score := StressQuizEntry.score entry, showResults := True\<rparr>,
            snd (saveQuizResult entry w'))"
    using f a by (auto simp: handleSubmit_def Let_def split: prod.splits sum.splits)
qed (simp_all add: getStressLevel_bands)

theorem quiz_score_and_level_witness:
  "fst (handleSubmit_entry all_sometimes utc_runtime) = quiz_of_march_11
   \<and> StressQuizEntry.score quiz_of_march_11
        = sum_list (map snd (StressQuizEntry.answers quiz_of_march_11))
   \<and> 26 \<le> StressQuizEntry.score quiz_of_march_11 \<and> StressQuizEntry.score quiz_of_march_11 \<le> 40
   \<and> level quiz_of_march_11 = Moderate"
proof -
  have e: "fst (handleSubmit_entry all_sometimes utc_runtime) = quiz_of_march_11"
    by code_simp
  then obtain w' where a: "handleSubmit_entry all_sometimes utc_runtime = (quiz_of_march_11, w')"
    by (cases "handleSubmit_entry all_sometimes utc_runtime") simp
  have b: "26 \<le> StressQuizEntry.score quiz_of_march_11 \<and> StressQuizEntry.score quiz_of_march_11 \<le> 40"
    by (simp add: quiz_of_march_11_def)
  from quiz_score_and_level [of all_sometimes utc_runtime quiz_of_march_11 w'] a b
  have "StressQuizEntry.score quiz_of_march_11
          = sum_list (map snd (StressQuizEntry.answers quiz_of_march_11))
        \<and> level quiz_of_march_11 = Moderate"
    by blast
  then show ?thesis
    using e b by blast
qed

section \<open>Streak, weekly data and the journal on concrete runs\<close>

lemma Date_now_frame:
  "Date_now w = (t, w') \<Longrightarrow> t = now w \<and> db w' = db w \<and> faults w' = faults w
     \<and> utcOffsetMinutes w' = utcOffsetMinutes w"
  by (auto simp: Date_now_def split: list.splits)

lemma weekly_loop_quiet:
  assumes "db w = Some database" "objectStores database MOODS_STORE = Some store" "faults w = []"
  shows "weekly_loop today indices weekData w =
     (Inr (weekData @
           map (\<lambda>i. (toISOString_date (setDate_back today i),
                      mood_or_null (IDBObjectStore_get store
                                      (toISOString_date (setDate_back today i)))))
               indices), w)"
proof (induction indices arbitrary: weekData)
  case Nil
  show ?case by simp
next
  case (Cons i rest)
  have "getMoodByDate (toISOString_date (setDate_back today i)) w =
          (Inr (IDBObjectStore_get store (toISOString_date (setDate_back today i))), w)"
    unfolding getMoodByDate_def by (rule readonly_quiet [OF assms])
  then show ?case
    by (simp add: Cons.IH Let_def)
qed

lemma setDate_back_day: "setDate_back t i div msPerDay = t div msPerDay - int i"
proof -
  have "msPerDay \<noteq> 0"
    by (simp add: msPerDay_def)
  then have "(t + (- int i) * msPerDay) div msPerDay = (- int i) + t div msPerDay"
    by (rule div_mult_self1)
  then show ?thesis
    by (simp add: setDate_back_def)
qed

text \<open>
  What \<open>getWeeklyData\<close> answers when the connection is open and the backend does not
  fail: seven entries, for the seven days that end with the day of the clock in UTC,
  oldest first, each with the mood found under that date, or null.
\<close>

lemma getWeeklyData_shape:
  assumes "db w = Some database" "objectStores database MOODS_STORE = Some store" "faults w = []"
  shows "fst (getWeeklyData w) =
     Inr (map (\<lambda>i. (toISOString_date (setDate_back (now w) i),
                     mood_or_null (IDBObjectStore_get store
                                     (toISOString_date (setDate_back (now w) i)))))
              [6, 5, 4, 3, 2, 1, 0])"
proof -
  obtain t w1 where d: "Date_now w = (t, w1)"
    by (cases "Date_now w")
  from Date_now_frame [OF d] have t: "t = now w" and db1: "db w1 = Some database"
    and f1: "faults w1 = []"
    using assms by simp_all
  have "weekly_loop t [6, 5, 4, 3, 2, 1, 0] [] w1 =
     (Inr ([] @
           map (\<lambda>i. (toISOString_date (setDate_back t i),
                      mood_or_null (IDBObjectStore_get store
                                      (toISOString_date (setDate_back t i)))))
               [6, 5, 4, 3, 2, 1, 0]), w1)"
    by (rule weekly_loop_quiet [OF db1 assms(2) f1])
  then show ?thesis
    by (simp add: getWeeklyData_def d t del: weekly_loop.simps)
qed

text \<open>
  C2, where the code does otherwise. \<open>new Date('YYYY-MM-DD')\<close> is midnight of that day
  in UTC, which west of UTC is the evening before in local time, and
  \<open>setHours(0, 0, 0, 0)\<close> moves it to the local midnight of the day before. So in
  Bogota, on 2024-03-10, the entry of the day itself is one day ago at index 0 and the
  loop breaks at once: with moods for today, yesterday and the day before \<open>getStreak\<close>
  answers 0, not 3, and with moods for today and two days ago it answers 0, not 1.
  (\<open>format_yyyy_MM_dd\<close> gives the key under which the mood page saves today's mood.)
\<close>

theorem streak_zero_west_of_utc:
  "format_yyyy_MM_dd (utcOffsetMinutes bogota_evening) (now bogota_evening) = ''2024-03-10''
   \<and> fst (getAllMoods (with_moods [''2024-03-10'', ''2024-03-09'', ''2024-03-08''] bogota_evening))
       = Inr (map (snd \<circ> mood_on) [''2024-03-08'', ''2024-03-09'', ''2024-03-10''])
   \<and> fst (getStreak (with_moods [''2024-03-10'', ''2024-03-09'', ''2024-03-08''] bogota_evening)) = Inr 0
   \<and> fst (getStreak (with_moods [''2024-03-10'', ''2024-03-08''] bogota_evening)) = Inr 0"
  by code_simp

text \<open>At UTC the four examples of the specification come out as it says: 0, 3, 0 and 1.\<close>

lemma streak_examples_at_utc:
  "format_yyyy_MM_dd (utcOffsetMinutes utc_runtime) (now utc_runtime) = ''2024-03-11''
   \<and> fst (getStreak (with_moods [] utc_runtime)) = Inr 0
   \<and> fst (getStreak (with_moods [''2024-03-11'', ''2024-03-10'', ''2024-03-09''] utc_runtime)) = Inr 3
   \<and> fst (getStreak (with_moods [''2024-03-10'', ''2024-03-09''] utc_runtime)) = Inr 0
   \<and> fst (getStreak (with_moods [''2024-03-11'', ''2024-03-09''] utc_runtime)) = Inr 1"
  by code_simp

text \<open>
  C4, where the code does otherwise. The seven dates are dates in UTC
  (\<open>toISOString\<close>), while the moods are saved under the local date. In Bogota, on
  2024-03-10 at 20:00, with a mood saved for today, the seven entries end with
  2024-03-11, a day that has not begun there, with no mood; today is the entry before
  the last, and the week begins on 2024-03-05 instead of 2024-03-04.
\<close>

theorem weekly_last_day_is_utc_day:
  "format_yyyy_MM_dd (utcOffsetMinutes bogota_evening) (now bogota_evening) = ''2024-03-10''
   \<and> fst (getMoodByDate ''2024-03-10'' (with_moods [''2024-03-10''] bogota_evening))
       = Inr (Some (snd (mood_on ''2024-03-10'')))
   \<and> fst (getWeeklyData (with_moods [''2024-03-10''] bogota_evening))
       = Inr [(''2024-03-05'', None), (''2024-03-06'', None), (''2024-03-07'', None),
              (''2024-03-08'', None), (''2024-03-09'', None), (''2024-03-10'', Some ''calm''),
              (''2024-03-11'', None)]"
  by code_simp

text \<open>
  C1, where the code does otherwise. No entry exists for the day. The auto-save
  creates it as a draft with \<open>createdAt\<close> 1710118800000, the reading of the clock at
  creation. The explicit save that follows writes \<open>draft = false\<close> and a later
  \<open>lastModified\<close>, but \<open>createdAt\<close> 1710118800004: the time of \<open>lastSaved\<close>, which is
  when the first save had finished, 4 ms after the entry was created.
\<close>

theorem journal_createdAt_moves:
  "fst (getJournalByDate ''2024-03-11'' journal_runtime) = Inr None
   \<and> fst (getJournalByDate ''2024-03-11'' (snd after_autoSave)) =
       Inr (Some (Journal \<lparr>JournalEntry.date = ''2024-03-11'', content = ''Dear diary'',
                           draft = Some True, lastModified = 1710118800000,
                           createdAt = 1710118800000\<rparr>))
   \<and> fst (getJournalByDate ''2024-03-11'' (snd after_save)) =
       Inr (Some (Journal \<lparr>JournalEntry.date = ''2024-03-11'', content = ''Dear diary'',
                           draft = Some False, lastModified = 1710118860004,
                           createdAt = 1710118800004\<rparr>))"
  by (simp add: after_save_def after_autoSave_def autoSaveDraft_def handleSave_def
      journal_save_def journal_entry_def saveJournal_def getJournalByDate_def run_defs
      Date_now_def journal_start_def journal_runtime_def utc_runtime_def trim_def
      isWhiteSpace_def journal_of_march_10_def mood_on_def)

text \<open>
  The cause, for any state: once \<open>lastSaved\<close> is set, the entry that either save
  constructs takes its \<open>createdAt\<close> from it, whatever the stored entry says. After a
  delete \<open>lastSaved\<close> is null again, and the next save stamps \<open>createdAt\<close> anew.
\<close>

lemma journal_entry_createdAt:
  "lastSaved st = Some saved \<Longrightarrow> createdAt (fst (journal_entry asDraft st w)) = saved"
  by (simp add: journal_entry_def split: prod.splits)

lemma journal_recreated_after_delete:
  "fst (getJournalByDate ''2024-03-11'' (snd after_delete)) = Inr None
   \<and> fst (getJournalByDate ''2024-03-11'' (snd after_delete_and_autoSave)) =
       Inr (Some (Journal \<lparr>JournalEntry.date = ''2024-03-11'', content = ''Dear diary, again'',
                           draft = Some True, lastModified = 1710118890007,
                           createdAt = 1710118890007\<rparr>))"
  by (simp add: after_delete_and_autoSave_def after_delete_def handleDelete_def
      handleContentChange_def deleteJournal_def
      after_save_def after_autoSave_def autoSaveDraft_def handleSave_def
      journal_save_def journal_entry_def saveJournal_def getJournalByDate_def run_defs
      Date_now_def journal_start_def journal_runtime_def utc_runtime_def trim_def
      isWhiteSpace_def journal_of_march_10_def mood_on_def)

end
